theory Spec2Isabelle
  imports Main "HOL-Library.Word" "HOL-Library.Monad_Syntax"
begin

unbundle bit_operations_syntax

section \<open>Machine types, buffers and files\<close>

text \<open>
  The decoder exists in two versions: \<^verbatim>\<open>src/png_decoder.c\<close> and the later
  \<^verbatim>\<open>src/unnamed/part_002\<close>. Functions that are the same in both are embedded once;
  where the two differ, the definition taken from \<^verbatim>\<open>part_002\<close> carries the suffix
  \<open>_part2\<close>.

  Conventions of the embedding:
  \<^item> a C function that returns \<^verbatim>\<open>int\<close> 0 or 1 and writes through out-parameters returns
    the pair of its return value (\<open>False\<close> for 0) and the new contents of the out-parameters;
  \<^item> a pointer to a heap buffer is an \<open>option\<close>: \<open>None\<close> is \<^verbatim>\<open>NULL\<close>, \<open>Some xs\<close> a
    block holding the octets \<open>xs\<close>;
  \<^item> where a C function can read or write outside a block, its result is wrapped in an
    outer \<open>option\<close> and \<open>None\<close> there means that the execution has left the block
    (undefined behaviour in C);
  \<^item> \<^verbatim>\<open>malloc\<close>, \<^verbatim>\<open>calloc\<close> and \<^verbatim>\<open>realloc\<close> are the parameter \<open>malloc_ok\<close>: \<open>malloc_ok n\<close> tells
    whether a request for \<open>n\<close> octets is served;
  \<^item> the loop of \<^verbatim>\<open>png_decompress_data\<close> can run forever; from there on a result is an
    \<open>outcome\<close>: the call returns a value, or its behaviour is undefined, or it never returns.
\<close>

type_synonym uint8_t = "8 word"
type_synonym uint16_t = "16 word"
type_synonym uint32_t = "32 word"

text \<open>\<^verbatim>\<open>buf[i]\<close> on a block: defined inside the block only.\<close>

definition rd :: "'a list \<Rightarrow> nat \<Rightarrow> 'a option" where
  "rd buf i = (if i < length buf then Some (buf ! i) else None)"

text \<open>\<^verbatim>\<open>memcpy(buf + off, xs, length xs)\<close> into a block: defined when the target range lies inside it.\<close>

definition wr :: "'a list \<Rightarrow> nat \<Rightarrow> 'a list \<Rightarrow> 'a list option" where
  "wr buf off xs =
     (if off + length xs \<le> length buf
      then Some (take off buf @ xs @ drop (off + length xs) buf)
      else None)"

text \<open>
  The source of \<^verbatim>\<open>memcpy(dst, buf, n)\<close>: the first \<open>n\<close> octets of a block, defined when the
  block has that many.
\<close>

definition rdn :: "'a list \<Rightarrow> nat \<Rightarrow> 'a list option" where
  "rdn buf n = (if n \<le> length buf then Some (take n buf) else None)"

datatype 'a outcome = Returns 'a | Undefined | Never_returns

text \<open>
  An open \<^verbatim>\<open>FILE*\<close> is the list of octets not yet read. \<^verbatim>\<open>fread(buf, 1, n, file)\<close> hands
  over the next \<open>n\<close> octets, fewer at the end of the file (the count it returns is the length
  of the first component), and leaves the rest.
\<close>

definition fread :: "nat \<Rightarrow> uint8_t list \<Rightarrow> uint8_t list \<times> uint8_t list" where
  "fread n file = (take n file, drop n file)"

text \<open>
  \<^verbatim>\<open>read_uint32_be(data)\<close>: \<^verbatim>\<open>(data[0] << 24) | (data[1] << 16) | (data[2] << 8) | data[3]\<close>.
  \<open>None\<close> when fewer than four octets are there. The operands are promoted to \<^verbatim>\<open>int\<close>; for
  a first octet of \<^verbatim>\<open>0x80\<close> or more the shift by 24 reaches the sign bit, and the result,
  converted to \<^verbatim>\<open>uint32_t\<close>, is the 32-bit pattern below (gcc, the compiler of the project,
  defines the shift so).
\<close>

fun read_uint32_be :: "uint8_t list \<Rightarrow> uint32_t option" where
  "read_uint32_be (d0 # d1 # d2 # d3 # _) =
     Some (push_bit 24 (ucast d0) OR push_bit 16 (ucast d1) OR push_bit 8 (ucast d2) OR ucast d3)"
| "read_uint32_be _ = None"

section \<open>CRC-32\<close>

text \<open>
  \<^verbatim>\<open>crc_table[i]\<close>: eight rounds of \<^verbatim>\<open>c = (c & 1) ? (0xEDB88320 ^ (c >> 1)) : (c >> 1)\<close>
  from \<^verbatim>\<open>c = i\<close>. The C code fills the table once and keeps it; the model computes the
  entry at each use.
\<close>

definition crc_table_round :: "uint32_t \<Rightarrow> uint32_t" where
  "crc_table_round c = (if c AND 1 \<noteq> 0 then 0xEDB88320 XOR drop_bit 1 c else drop_bit 1 c)"

definition crc_table :: "uint32_t \<Rightarrow> uint32_t" where
  "crc_table i = (crc_table_round ^^ 8) i"

text \<open>
  \<^verbatim>\<open>png_crc32(crc, buf, len)\<close>, with \<open>buf\<close> the \<^verbatim>\<open>len\<close> octets it is called on. The loop
  \<^verbatim>\<open>crc = crc_table[(crc ^ buf[i]) & 0xFF] ^ (crc >> 8)\<close> is \<open>png_crc32_loop\<close>.
\<close>

fun png_crc32_loop :: "uint32_t \<Rightarrow> uint8_t list \<Rightarrow> uint32_t" where
  "png_crc32_loop crc [] = crc"
| "png_crc32_loop crc (b # buf) =
     png_crc32_loop (crc_table ((crc XOR ucast b) AND 0xFF) XOR drop_bit 8 crc) buf"

definition png_crc32 :: "uint32_t \<Rightarrow> uint8_t list \<Rightarrow> uint32_t" where
  "png_crc32 crc buf = png_crc32_loop (crc XOR 0xFFFFFFFF) buf XOR 0xFFFFFFFF"

section \<open>Data model (\<^verbatim>\<open>png_decoder.h\<close>)\<close>

definition PNG_SIGNATURE :: "uint8_t list" where
  "PNG_SIGNATURE = [0x89, 0x50, 0x4E, 0x47, 0x0D, 0x0A, 0x1A, 0x0A]"

definition PNG_SIGNATURE_SIZE :: nat where
  "PNG_SIGNATURE_SIZE = 8"

definition MAX_CHUNK_LENGTH :: uint32_t where
  "MAX_CHUNK_LENGTH = 100 * 1024 * 1024"

definition PNG_CHUNK_IHDR :: uint32_t where "PNG_CHUNK_IHDR = 0x49484452"
definition PNG_CHUNK_IDAT :: uint32_t where "PNG_CHUNK_IDAT = 0x49444154"
definition PNG_CHUNK_IEND :: uint32_t where "PNG_CHUNK_IEND = 0x49454E44"
definition PNG_CHUNK_PLTE :: uint32_t where "PNG_CHUNK_PLTE = 0x504C5445"
definition PNG_CHUNK_tRNS :: uint32_t where "PNG_CHUNK_tRNS = 0x74524E53"

definition PNG_COLOR_TYPE_GRAY :: uint8_t where "PNG_COLOR_TYPE_GRAY = 0"
definition PNG_COLOR_TYPE_RGB :: uint8_t where "PNG_COLOR_TYPE_RGB = 2"
definition PNG_COLOR_TYPE_PALETTE :: uint8_t where "PNG_COLOR_TYPE_PALETTE = 3"
definition PNG_COLOR_TYPE_GRAY_ALPHA :: uint8_t where "PNG_COLOR_TYPE_GRAY_ALPHA = 4"
definition PNG_COLOR_TYPE_RGBA :: uint8_t where "PNG_COLOR_TYPE_RGBA = 6"

definition PNG_COMPRESSION_METHOD_DEFLATE :: uint8_t where "PNG_COMPRESSION_METHOD_DEFLATE = 0"
definition PNG_FILTER_METHOD_ADAPTIVE :: uint8_t where "PNG_FILTER_METHOD_ADAPTIVE = 0"
definition PNG_INTERLACE_METHOD_NONE :: uint8_t where "PNG_INTERLACE_METHOD_NONE = 0"
definition PNG_INTERLACE_METHOD_ADAM7 :: uint8_t where "PNG_INTERLACE_METHOD_ADAM7 = 1"

record PNG_IHDR =
  width :: uint32_t
  height :: uint32_t
  bit_depth :: uint8_t
  color_type :: uint8_t
  compression_method :: uint8_t
  filter_method :: uint8_t
  interlace_method :: uint8_t

text \<open>The fields of \<^verbatim>\<open>PNG_Chunk\<close> are \<^verbatim>\<open>length\<close>, \<^verbatim>\<open>type\<close>, \<^verbatim>\<open>data\<close> and \<^verbatim>\<open>crc\<close>.\<close>

record PNG_Chunk =
  c_length :: uint32_t
  c_type :: uint32_t
  c_data :: "uint8_t list option"
  c_crc :: uint32_t

record PNG_PaletteEntry =
  red :: uint8_t
  green :: uint8_t
  blue :: uint8_t

record PNG_Image =
  header :: PNG_IHDR
  palette :: "PNG_PaletteEntry list option"
  palette_size :: uint32_t
  transparency :: "uint8_t list option"
  transparency_size :: uint32_t
  image_data :: "uint8_t list option"
  image_data_size :: uint32_t

text \<open>\<^verbatim>\<open>memset(chunk, 0, sizeof(PNG_Chunk))\<close> and \<^verbatim>\<open>memset(image, 0, sizeof(PNG_Image))\<close>.\<close>

definition zero_chunk :: PNG_Chunk where
  "zero_chunk = \<lparr>c_length = 0, c_type = 0, c_data = None, c_crc = 0\<rparr>"

definition zero_ihdr :: PNG_IHDR where
  "zero_ihdr = \<lparr>width = 0, height = 0, bit_depth = 0, color_type = 0,
     compression_method = 0, filter_method = 0, interlace_method = 0\<rparr>"

definition zero_image :: PNG_Image where
  "zero_image = \<lparr>header = zero_ihdr, palette = None, palette_size = 0, transparency = None,
     transparency_size = 0, image_data = None, image_data_size = 0\<rparr>"

section \<open>Chunk reader\<close>

text \<open>
  \<^verbatim>\<open>png_read_chunk(file, chunk)\<close> returns four things: the return value, the contents of
  \<^verbatim>\<open>*chunk\<close>, the file position (the octets left), and the number of payload blocks that the
  call has allocated and not freed. The chunk pointer is the address of a local variable in
  the only caller and is taken as non-null; a null \<^verbatim>\<open>file\<close> is \<open>None\<close>.

  The label \<^verbatim>\<open>fail\<close>: \<^verbatim>\<open>if (chunk->data) free(chunk->data); memset(chunk, 0, ...); return 0\<close>.
\<close>

definition png_read_chunk_fail ::
  "PNG_Chunk \<Rightarrow> uint8_t list \<Rightarrow> nat \<Rightarrow> bool \<times> PNG_Chunk \<times> uint8_t list \<times> nat" where
  "png_read_chunk_fail chunk file live =
     (False, zero_chunk, file, (if c_data chunk \<noteq> None then live - 1 else live))"

text \<open>Step 5 of \<^verbatim>\<open>png_read_chunk\<close>: read the stored CRC and compare it with the computed one.\<close>

definition png_read_chunk_crc ::
  "PNG_Chunk \<Rightarrow> uint8_t list \<Rightarrow> uint8_t list \<Rightarrow> nat \<Rightarrow> bool \<times> PNG_Chunk \<times> uint8_t list \<times> nat" where
  "png_read_chunk_crc chunk type_buf file live =
     (let (crc_buf, file) = fread 4 file in
      case read_uint32_be crc_buf of
        None \<Rightarrow> png_read_chunk_fail chunk file live
      | Some crc \<Rightarrow>
          (let chunk = chunk\<lparr>c_crc := crc\<rparr>;
               calculated_crc = png_crc32 0 type_buf;
               calculated_crc = (case c_data chunk of
                                   None \<Rightarrow> calculated_crc
                                 | Some d \<Rightarrow> png_crc32 calculated_crc d)
           in if calculated_crc \<noteq> c_crc chunk then png_read_chunk_fail chunk file live
              else (True, chunk, file, live)))"

text \<open>Step 4: allocate and read the payload when the length is not zero.\<close>

definition png_read_chunk_data ::
  "(nat \<Rightarrow> bool) \<Rightarrow> PNG_Chunk \<Rightarrow> uint8_t list \<Rightarrow> uint8_t list \<Rightarrow>
     bool \<times> PNG_Chunk \<times> uint8_t list \<times> nat" where
  "png_read_chunk_data malloc_ok chunk type_buf file =
     (if c_length chunk > 0 then
        (if \<not> malloc_ok (unat (c_length chunk)) then png_read_chunk_fail chunk file 0
         else
           (let (payload, file) = fread (unat (c_length chunk)) file;
                chunk = chunk\<lparr>c_data := Some payload\<rparr>
            in if length payload \<noteq> unat (c_length chunk) then png_read_chunk_fail chunk file 1
               else png_read_chunk_crc chunk type_buf file 1))
      else png_read_chunk_crc chunk type_buf file 0)"

definition png_read_chunk ::
  "(nat \<Rightarrow> bool) \<Rightarrow> uint8_t list option \<Rightarrow> PNG_Chunk \<Rightarrow>
     bool \<times> PNG_Chunk \<times> uint8_t list \<times> nat" where
  "png_read_chunk malloc_ok file chunk =
     (case file of
        None \<Rightarrow> (False, chunk, [], 0)
      | Some file \<Rightarrow>
          (let chunk = zero_chunk;
               (length_buf, file) = fread 4 file
           in case read_uint32_be length_buf of
                None \<Rightarrow> (False, chunk, file, 0)
              | Some len \<Rightarrow>
                  (let chunk = chunk\<lparr>c_length := len\<rparr> in
                   if c_length chunk > MAX_CHUNK_LENGTH then png_read_chunk_fail chunk file 0
                   else
                     (let (type_buf, file) = fread 4 file in
                      case read_uint32_be type_buf of
                        None \<Rightarrow> png_read_chunk_fail chunk file 0
                      | Some ty \<Rightarrow>
                          png_read_chunk_data malloc_ok (chunk\<lparr>c_type := ty\<rparr>) type_buf file))))"

section \<open>Chunk parsers\<close>

text \<open>
  \<^verbatim>\<open>png_parse_ihdr(chunk, ihdr)\<close>. The seven fields are stored into \<^verbatim>\<open>*ihdr\<close> before they are
  validated; \<open>png_parse_ihdr_checks\<close> is the sequence of validations that follows, in the
  order of the source.
\<close>

definition png_parse_ihdr_checks :: "PNG_IHDR \<Rightarrow> bool" where
  "png_parse_ihdr_checks ihdr =
     (if width ihdr = 0 \<or> height ihdr = 0 then False
      else if compression_method ihdr \<noteq> PNG_COMPRESSION_METHOD_DEFLATE then False
      else if filter_method ihdr \<noteq> PNG_FILTER_METHOD_ADAPTIVE then False
      else if interlace_method ihdr \<noteq> PNG_INTERLACE_METHOD_NONE \<and>
              interlace_method ihdr \<noteq> PNG_INTERLACE_METHOD_ADAM7 then False
      else if color_type ihdr = PNG_COLOR_TYPE_GRAY then
        \<not> (bit_depth ihdr \<noteq> 1 \<and> bit_depth ihdr \<noteq> 2 \<and> bit_depth ihdr \<noteq> 4 \<and>
           bit_depth ihdr \<noteq> 8 \<and> bit_depth ihdr \<noteq> 16)
      else if color_type ihdr = PNG_COLOR_TYPE_RGB then
        \<not> (bit_depth ihdr \<noteq> 8 \<and> bit_depth ihdr \<noteq> 16)
      else if color_type ihdr = PNG_COLOR_TYPE_PALETTE then
        \<not> (bit_depth ihdr \<noteq> 1 \<and> bit_depth ihdr \<noteq> 2 \<and> bit_depth ihdr \<noteq> 4 \<and>
           bit_depth ihdr \<noteq> 8)
      else if color_type ihdr = PNG_COLOR_TYPE_GRAY_ALPHA then
        \<not> (bit_depth ihdr \<noteq> 8 \<and> bit_depth ihdr \<noteq> 16)
      else if color_type ihdr = PNG_COLOR_TYPE_RGBA then
        \<not> (bit_depth ihdr \<noteq> 8 \<and> bit_depth ihdr \<noteq> 16)
      else False)"

definition png_parse_ihdr :: "PNG_Chunk \<Rightarrow> PNG_IHDR \<Rightarrow> (bool \<times> PNG_IHDR) option" where
  "png_parse_ihdr chunk ihdr =
     (if c_length chunk \<noteq> 13 then Some (False, ihdr)
      else
        (case c_data chunk of
           None \<Rightarrow> None
         | Some data \<Rightarrow>
             do {
               w \<leftarrow> read_uint32_be data;
               h \<leftarrow> read_uint32_be (drop 4 data);
               bd \<leftarrow> rd data 8;
               ct \<leftarrow> rd data 9;
               cm \<leftarrow> rd data 10;
               fm \<leftarrow> rd data 11;
               im \<leftarrow> rd data 12;
               let ihdr = \<lparr>width = w, height = h, bit_depth = bd, color_type = ct,
                             compression_method = cm, filter_method = fm,
                             interlace_method = im\<rparr>;
               Some (png_parse_ihdr_checks ihdr, ihdr)
             }))"

text \<open>
  The payload of a chunk as \<^verbatim>\<open>memcpy(dst, chunk->data, chunk->length)\<close> and the loops over
  \<^verbatim>\<open>chunk->data\<close> see it: the first \<^verbatim>\<open>length\<close> octets of the block. Copying no octets from a
  null pointer is taken as copying nothing.
\<close>

definition chunk_payload :: "PNG_Chunk \<Rightarrow> uint8_t list option" where
  "chunk_payload chunk =
     (case c_data chunk of
        None \<Rightarrow> (if c_length chunk = 0 then Some [] else None)
      | Some data \<Rightarrow>
          (if unat (c_length chunk) \<le> length data then Some (take (unat (c_length chunk)) data)
           else None))"

text \<open>
  \<^verbatim>\<open>png_parse_plte(chunk, palette, palette_size)\<close>: the out-parameters are passed in (\<open>palette0\<close>,
  \<open>palette_size0\<close>: their contents on entry) and returned. Entry \<open>i\<close> is read from \<^verbatim>\<open>data[i * 3]\<close>, \<^verbatim>\<open>data[i * 3 + 1]\<close>, \<^verbatim>\<open>data[i * 3 + 2]\<close>.
\<close>

definition png_parse_plte_entry :: "uint8_t list \<Rightarrow> nat \<Rightarrow> PNG_PaletteEntry option" where
  "png_parse_plte_entry data i =
     do {
       r \<leftarrow> rd data (i * 3);
       g \<leftarrow> rd data (i * 3 + 1);
       b \<leftarrow> rd data (i * 3 + 2);
       Some \<lparr>red = r, green = g, blue = b\<rparr>
     }"

definition png_parse_plte ::
  "(nat \<Rightarrow> bool) \<Rightarrow> PNG_Chunk \<Rightarrow> PNG_PaletteEntry list option \<Rightarrow> uint32_t \<Rightarrow>
     (bool \<times> PNG_PaletteEntry list option \<times> uint32_t) option" where
  "png_parse_plte malloc_ok chunk palette0 palette_size0 =
     (if c_length chunk mod 3 \<noteq> 0 \<or> c_length chunk > 768 then Some (False, palette0, palette_size0)
      else
        (let palette_size = c_length chunk div 3 in
         if \<not> malloc_ok (unat palette_size * 3) then Some (False, None, palette_size)
         else
           do {
             data \<leftarrow> chunk_payload chunk;
             entries \<leftarrow> those (map (png_parse_plte_entry data) [0..<unat palette_size]);
             Some (True, Some entries, palette_size)
           }))"

text \<open>
  \<^verbatim>\<open>png_parse_trns\<close> of \<^verbatim>\<open>png_decoder.c\<close>: three parameters, no check of the length.
\<close>

definition png_parse_trns ::
  "(nat \<Rightarrow> bool) \<Rightarrow> PNG_Chunk \<Rightarrow> uint8_t list option \<Rightarrow> uint32_t \<Rightarrow>
     (bool \<times> uint8_t list option \<times> uint32_t) option" where
  "png_parse_trns malloc_ok chunk transparency0 transparency_size0 =
     (if \<not> malloc_ok (unat (c_length chunk)) then Some (False, None, transparency_size0)
      else
        do {
          data \<leftarrow> chunk_payload chunk;
          Some (True, Some data, c_length chunk)
        })"

text \<open>
  \<^verbatim>\<open>png_parse_trns\<close> of \<^verbatim>\<open>part_002\<close>: the colour type is a parameter and the length is
  checked against it before anything is allocated.
\<close>

definition png_parse_trns_part2 ::
  "(nat \<Rightarrow> bool) \<Rightarrow> PNG_Chunk \<Rightarrow> uint8_t \<Rightarrow> uint8_t list option \<Rightarrow> uint32_t \<Rightarrow>
     (bool \<times> uint8_t list option \<times> uint32_t) option" where
  "png_parse_trns_part2 malloc_ok chunk ctype transparency0 transparency_size0 =
     (if ctype = PNG_COLOR_TYPE_GRAY \<and> c_length chunk \<noteq> 2 then
        Some (False, transparency0, transparency_size0)
      else if ctype = PNG_COLOR_TYPE_RGB \<and> c_length chunk \<noteq> 6 then
        Some (False, transparency0, transparency_size0)
      else if ctype = PNG_COLOR_TYPE_PALETTE \<and> (c_length chunk = 0 \<or> c_length chunk > 256) then
        Some (False, transparency0, transparency_size0)
      else if ctype = PNG_COLOR_TYPE_GRAY_ALPHA \<or> ctype = PNG_COLOR_TYPE_RGBA then
        Some (False, transparency0, transparency_size0)
      else if ctype \<noteq> PNG_COLOR_TYPE_GRAY \<and> ctype \<noteq> PNG_COLOR_TYPE_RGB \<and>
              ctype \<noteq> PNG_COLOR_TYPE_PALETTE then
        Some (False, transparency0, transparency_size0)
      else if \<not> malloc_ok (unat (c_length chunk)) then Some (False, None, transparency_size0)
      else
        do {
          data \<leftarrow> chunk_payload chunk;
          Some (True, Some data, c_length chunk)
        })"

text \<open>
  \<^verbatim>\<open>png_process_idat(chunk, image_data, image_data_size)\<close>. The first branch allocates a new
  block; the second one grows the block with \<^verbatim>\<open>realloc\<close> to
  \<^verbatim>\<open>*image_data_size + chunk->length\<close> octets (a 32-bit sum) and copies the payload to offset
  \<^verbatim>\<open>*image_data_size\<close>. No result is given where the old block is shorter than
  \<^verbatim>\<open>*image_data_size\<close> or the copy would end outside the new block.
\<close>

definition png_process_idat ::
  "(nat \<Rightarrow> bool) \<Rightarrow> PNG_Chunk \<Rightarrow> uint8_t list option \<Rightarrow> uint32_t \<Rightarrow>
     (bool \<times> uint8_t list option \<times> uint32_t) option" where
  "png_process_idat malloc_ok chunk image_data0 image_data_size0 =
     (if image_data_size0 = 0 then
        (if \<not> malloc_ok (unat (c_length chunk)) then Some (False, None, image_data_size0)
         else
           do {
             data \<leftarrow> chunk_payload chunk;
             Some (True, Some data, c_length chunk)
           })
      else
        (if \<not> malloc_ok (unat (image_data_size0 + c_length chunk)) then
           Some (False, image_data0, image_data_size0)
         else
           do {
             data \<leftarrow> chunk_payload chunk;
             old \<leftarrow> image_data0;
             (if length old < unat image_data_size0 \<or>
                 unat (image_data_size0 + c_length chunk) < unat image_data_size0 + unat (c_length chunk)
              then None
              else Some (True, Some (take (unat image_data_size0) old @ data),
                         image_data_size0 + c_length chunk))
           }))"

section \<open>Decompressor\<close>

text \<open>
  \<^verbatim>\<open>png_decompress_data\<close> drives zlib, which is not part of the repository. The return codes
  it tests are those of \<^verbatim>\<open>zlib.h\<close>.
\<close>

definition Z_OK :: int where "Z_OK = 0"
definition Z_STREAM_END :: int where "Z_STREAM_END = 1"
definition Z_STREAM_ERROR :: int where "Z_STREAM_ERROR = - 2"
definition Z_DATA_ERROR :: int where "Z_DATA_ERROR = - 3"
definition Z_BUF_ERROR :: int where "Z_BUF_ERROR = - 5"

text \<open>
  The two zlib functions that do the work are parameters, with \<open>'z\<close> the type of what a
  \<^verbatim>\<open>z_stream\<close> holds between calls (the input not yet consumed and zlib's internal state):
  \<^item> \<open>inflateInit zlib compressed\<close> is \<^verbatim>\<open>inflateInit(&stream)\<close> on a stream whose \<^verbatim>\<open>next_in\<close>
    and \<^verbatim>\<open>avail_in\<close> have been set to the octets \<open>compressed\<close>: the return value and the
    stream;
  \<^item> \<open>inflate zlib stream avail_out\<close> is \<^verbatim>\<open>inflate(&stream, Z_NO_FLUSH)\<close> with \<^verbatim>\<open>avail_out\<close> octets
    of room at \<^verbatim>\<open>next_out\<close>: the return value, the octets written there, and the stream after
    the call. \<^verbatim>\<open>stream.avail_out\<close> after the call is \<open>avail_out\<close> less the number of octets
    written.
  \<^verbatim>\<open>inflateEnd\<close> only releases zlib's own memory.
\<close>

record 'z zlib_functions =
  inflateInit :: "uint8_t list \<Rightarrow> int \<times> 'z"
  inflate :: "'z \<Rightarrow> nat \<Rightarrow> int \<times> uint8_t list \<times> 'z"

text \<open>
  How the \<^verbatim>\<open>do ... while (ret != Z_STREAM_END)\<close> loop is left: by one of its two \<^verbatim>\<open>return 0\<close>
  (the block of \<^verbatim>\<open>*decompressed\<close> has been freed), at its end with the octets written so far
  and \<^verbatim>\<open>total_size\<close>, or into undefined behaviour.
\<close>

datatype loop_exit = Loop_failed | Loop_done "uint8_t list" uint32_t | Loop_undefined

text \<open>
  The loop. \<open>decompressed\<close> is the list of the octets zlib has written into the block of
  \<^verbatim>\<open>*decompressed\<close>, which has \<^verbatim>\<open>buffer_size\<close> octets; the octets after them have no value yet.
  \<open>None\<close> means that the loop never ends: it goes on as long as \<^verbatim>\<open>inflate\<close> returns anything
  but \<^verbatim>\<open>Z_STREAM_ERROR\<close> and \<^verbatim>\<open>Z_STREAM_END\<close>.

  Two points are undefined behaviour. zlib may not write more than \<^verbatim>\<open>avail_out\<close> octets. And
  when the doubled \<^verbatim>\<open>buffer_size\<close> wraps around to 0, \<^verbatim>\<open>realloc(*decompressed, 0)\<close> frees the
  block and returns null (glibc and the C runtime of Windows, the platform of the viewer, do
  so), and the code frees the block a second time.
\<close>

partial_function (option) png_decompress_data_loop ::
  "'z zlib_functions \<Rightarrow> (nat \<Rightarrow> bool) \<Rightarrow> 'z \<Rightarrow> uint32_t \<Rightarrow> uint32_t \<Rightarrow> uint8_t list \<Rightarrow>
     loop_exit option" where
  "png_decompress_data_loop zlib malloc_ok stream buffer_size total_size decompressed =
     (case inflate zlib stream (unat (buffer_size - total_size)) of
        (ret, written, stream') \<Rightarrow>
          if ret = Z_STREAM_ERROR then Some Loop_failed
          else if unat (buffer_size - total_size) < length written then Some Loop_undefined
          else
            (let avail_out = buffer_size - total_size - of_nat (length written);
                 decompressed = decompressed @ written;
                 total_size = buffer_size - avail_out
             in if avail_out = 0 then
                  (if buffer_size * 2 = 0 then Some Loop_undefined
                   else if \<not> malloc_ok (unat (buffer_size * 2)) then Some Loop_failed
                   else if ret \<noteq> Z_STREAM_END then
                     png_decompress_data_loop zlib malloc_ok stream' (buffer_size * 2) total_size
                       decompressed
                   else Some (Loop_done decompressed total_size))
                else if ret \<noteq> Z_STREAM_END then
                  png_decompress_data_loop zlib malloc_ok stream' buffer_size total_size
                    decompressed
                else Some (Loop_done decompressed total_size)))"

text \<open>
  A pointer to a block that the callee may have freed: null, a live block with its octets,
  or the address of a block that has been freed.
\<close>

datatype heap_ptr = Null_ptr | Block "uint8_t list" | Freed_ptr

text \<open>
  \<^verbatim>\<open>png_decompress_data(compressed, compressed_size, decompressed, decompressed_size)\<close>
  returns the return value, \<^verbatim>\<open>*decompressed\<close> and \<^verbatim>\<open>*decompressed_size\<close>; \<open>decompressed0\<close> and
  \<open>decompressed_size0\<close> are their contents on entry. zlib reads \<^verbatim>\<open>compressed_size\<close> octets
  from \<^verbatim>\<open>compressed\<close>; \<^verbatim>\<open>png_read_file\<close> passes a non-null block of that size.

  After the loop \<^verbatim>\<open>realloc(*decompressed, *decompressed_size)\<close> trims the block, and
  \<^verbatim>\<open>*decompressed\<close> is replaced only when the result is not null. For a size that is not zero
  the block holds the decompressed octets either way. For the size zero \<^verbatim>\<open>realloc\<close> frees
  the block and returns null, so \<^verbatim>\<open>*decompressed\<close> keeps the address of the freed block while
  the function returns 1.
\<close>

definition png_decompress_data ::
  "'z zlib_functions \<Rightarrow> (nat \<Rightarrow> bool) \<Rightarrow> uint8_t list option \<Rightarrow> uint32_t \<Rightarrow> heap_ptr \<Rightarrow> uint32_t \<Rightarrow>
     (bool \<times> heap_ptr \<times> uint32_t) outcome" where
  "png_decompress_data zlib malloc_ok compressed compressed_size decompressed0 decompressed_size0 =
     (case rdn (case compressed of None \<Rightarrow> [] | Some d \<Rightarrow> d) (unat compressed_size) of
        None \<Rightarrow> Undefined
      | Some input \<Rightarrow>
          (case inflateInit zlib input of
             (ret, stream) \<Rightarrow>
               if ret \<noteq> Z_OK then Returns (False, decompressed0, decompressed_size0)
               else if \<not> malloc_ok 4096 then Returns (False, Null_ptr, decompressed_size0)
               else
                 (case png_decompress_data_loop zlib malloc_ok stream 4096 0 [] of
                    None \<Rightarrow> Never_returns
                  | Some Loop_undefined \<Rightarrow> Undefined
                  | Some Loop_failed \<Rightarrow> Returns (False, Freed_ptr, decompressed_size0)
                  | Some (Loop_done decompressed total_size) \<Rightarrow>
                      if total_size = 0 then Returns (True, Freed_ptr, total_size)
                      else Returns (True, Block decompressed, total_size))))"

section \<open>Filter reverser\<close>

text \<open>
  The \<^verbatim>\<open>switch (color_type)\<close> at the head of \<^verbatim>\<open>png_apply_filters\<close>; \<open>None\<close> is its
  \<^verbatim>\<open>default: return 0\<close>.
\<close>

definition png_apply_filters_switch :: "uint8_t \<Rightarrow> uint8_t \<Rightarrow> nat option" where
  "png_apply_filters_switch ctype depth =
     (if ctype = PNG_COLOR_TYPE_GRAY then Some (if depth \<ge> 8 then 1 else 0)
      else if ctype = PNG_COLOR_TYPE_RGB then Some (3 * (if depth \<ge> 8 then 1 else 0))
      else if ctype = PNG_COLOR_TYPE_PALETTE then Some 1
      else if ctype = PNG_COLOR_TYPE_GRAY_ALPHA then Some (2 * (if depth \<ge> 8 then 1 else 0))
      else if ctype = PNG_COLOR_TYPE_RGBA then Some (4 * (if depth \<ge> 8 then 1 else 0))
      else None)"

text \<open>
  The adjustment that follows the switch: the pair of \<^verbatim>\<open>bytes_per_pixel\<close> and \<^verbatim>\<open>width\<close>
  after it.
\<close>

definition png_apply_filters_adjust ::
  "uint8_t \<Rightarrow> uint8_t \<Rightarrow> nat \<Rightarrow> uint32_t \<Rightarrow> nat \<times> uint32_t" where
  "png_apply_filters_adjust ctype depth bytes_per_pixel w =
     (if depth < 8 \<and> (ctype = PNG_COLOR_TYPE_GRAY \<or> ctype = PNG_COLOR_TYPE_PALETTE)
      then (1, (w * ucast depth + 7) div 8)
      else if depth = 16 then (bytes_per_pixel * 2, w)
      else (bytes_per_pixel, w))"

text \<open>
  The body of the loop over \<^verbatim>\<open>x\<close>: the new value of \<^verbatim>\<open>current_line[x]\<close>. Both line buffers
  hold \<^verbatim>\<open>bytes_per_line\<close> octets and \<open>x\<close> runs below that, so the reads stay inside them.
  \<^verbatim>\<open>left + above\<close> and the Paeth distances are computed in \<^verbatim>\<open>int\<close>.
\<close>

definition png_apply_filters_byte ::
  "uint8_t \<Rightarrow> nat \<Rightarrow> uint8_t list \<Rightarrow> uint8_t list \<Rightarrow> nat \<Rightarrow> uint8_t" where
  "png_apply_filters_byte filter_type bytes_per_pixel prev_line current_line x =
     (let left = (if x \<ge> bytes_per_pixel then current_line ! (x - bytes_per_pixel) else 0);
          above = prev_line ! x;
          upper_left = (if x \<ge> bytes_per_pixel then prev_line ! (x - bytes_per_pixel) else 0)
      in if filter_type = 0 then current_line ! x
         else if filter_type = 1 then current_line ! x + left
         else if filter_type = 2 then current_line ! x + above
         else if filter_type = 3 then
           current_line ! x + word_of_int ((uint left + uint above) div 2)
         else if filter_type = 4 then
           (let p = uint left + uint above - uint upper_left;
                pa = \<bar>p - uint left\<bar>;
                pb = \<bar>p - uint above\<bar>;
                pc = \<bar>p - uint upper_left\<bar>
            in if pa \<le> pb \<and> pa \<le> pc then current_line ! x + left
               else if pb \<le> pc then current_line ! x + above
               else current_line ! x + upper_left)
         else current_line ! x)"

text \<open>The loop \<^verbatim>\<open>for (x = 0; x < bytes_per_line; x++)\<close>, over the list of its indices.\<close>

fun png_apply_filters_line ::
  "uint8_t \<Rightarrow> nat \<Rightarrow> uint8_t list \<Rightarrow> uint8_t list \<Rightarrow> nat list \<Rightarrow> uint8_t list" where
  "png_apply_filters_line filter_type bytes_per_pixel prev_line current_line [] = current_line"
| "png_apply_filters_line filter_type bytes_per_pixel prev_line current_line (x # xs) =
     png_apply_filters_line filter_type bytes_per_pixel prev_line
       (current_line[x := png_apply_filters_byte filter_type bytes_per_pixel prev_line current_line x])
       xs"

text \<open>
  The loop over the scanlines in \<^verbatim>\<open>png_decoder.c\<close>, over the list of the values of \<^verbatim>\<open>y\<close>.
  \<open>data_ptr\<close> and \<open>output_ptr\<close> are offsets into the block \<open>buf\<close> of \<^verbatim>\<open>image_data\<close>.
  \<open>(False, buf)\<close> is the \<^verbatim>\<open>return 0\<close> on a filter type above 4.
\<close>

fun png_apply_filters_rows ::
  "nat \<Rightarrow> nat \<Rightarrow> nat list \<Rightarrow> nat \<Rightarrow> nat \<Rightarrow> uint8_t list \<Rightarrow> uint8_t list \<Rightarrow>
     (bool \<times> uint8_t list) option" where
  "png_apply_filters_rows bytes_per_pixel bytes_per_line [] data_ptr output_ptr buf prev_line =
     Some (True, buf)"
| "png_apply_filters_rows bytes_per_pixel bytes_per_line (y # ys) data_ptr output_ptr buf prev_line =
     (case rd buf data_ptr of
        None \<Rightarrow> None
      | Some filter_type \<Rightarrow>
          if filter_type > 4 then Some (False, buf)
          else if length buf < data_ptr + 1 + bytes_per_line then None
          else
            (let current_line =
                   png_apply_filters_line filter_type bytes_per_pixel prev_line
                     (take bytes_per_line (drop (data_ptr + 1) buf)) [0..<bytes_per_line]
             in case wr buf output_ptr current_line of
                  None \<Rightarrow> None
                | Some buf' \<Rightarrow>
                    png_apply_filters_rows bytes_per_pixel bytes_per_line ys
                      (data_ptr + 1 + bytes_per_line) (output_ptr + bytes_per_line) buf'
                      current_line))"

text \<open>
  The same loop in \<^verbatim>\<open>part_002\<close>. There the two copies after the loop over \<^verbatim>\<open>x\<close> are
  \<^verbatim>\<open>memcpy(output_ptr, current_line, bytes_per_line + 1)\<close> and
  \<^verbatim>\<open>memcpy(prev_line, current_line, bytes_per_line + 1)\<close>, while \<^verbatim>\<open>current_line\<close> and
  \<^verbatim>\<open>prev_line\<close> are blocks of \<^verbatim>\<open>bytes_per_line\<close> octets: both copies read one octet past the
  end of \<^verbatim>\<open>current_line\<close> and the second one writes one octet past the end of \<^verbatim>\<open>prev_line\<close>.
\<close>

fun png_apply_filters_rows_part2 ::
  "nat \<Rightarrow> nat \<Rightarrow> nat list \<Rightarrow> nat \<Rightarrow> nat \<Rightarrow> uint8_t list \<Rightarrow> uint8_t list \<Rightarrow>
     (bool \<times> uint8_t list) option" where
  "png_apply_filters_rows_part2 bytes_per_pixel bytes_per_line [] data_ptr output_ptr buf prev_line =
     Some (True, buf)"
| "png_apply_filters_rows_part2 bytes_per_pixel bytes_per_line (y # ys) data_ptr output_ptr buf prev_line =
     (case rd buf data_ptr of
        None \<Rightarrow> None
      | Some filter_type \<Rightarrow>
          if filter_type > 4 then Some (False, buf)
          else if length buf < data_ptr + 1 + bytes_per_line then None
          else
            (let current_line =
                   png_apply_filters_line filter_type bytes_per_pixel prev_line
                     (take bytes_per_line (drop (data_ptr + 1) buf)) [0..<bytes_per_line]
             in case rdn current_line (bytes_per_line + 1) of
                  None \<Rightarrow> None
                | Some copied \<Rightarrow>
                    (case wr buf output_ptr copied of
                       None \<Rightarrow> None
                     | Some buf' \<Rightarrow>
                         (case wr prev_line 0 copied of
                            None \<Rightarrow> None
                          | Some prev_line' \<Rightarrow>
                              png_apply_filters_rows_part2 bytes_per_pixel bytes_per_line ys
                                (data_ptr + 1 + bytes_per_line) (output_ptr + bytes_per_line) buf'
                                prev_line'))))"

text \<open>
  The final \<^verbatim>\<open>memmove(image_data, image_data + header->height, bytes_per_line * header->height)\<close>
  of \<^verbatim>\<open>png_decoder.c\<close> (the count is a 32-bit product).
\<close>

definition png_apply_filters_memmove :: "uint8_t list \<Rightarrow> uint32_t \<Rightarrow> uint32_t \<Rightarrow> uint8_t list option" where
  "png_apply_filters_memmove buf h bytes_per_line =
     (if unat h + unat (bytes_per_line * h) \<le> length buf
      then wr buf 0 (take (unat (bytes_per_line * h)) (drop (unat h) buf))
      else None)"

text \<open>
  \<^verbatim>\<open>png_apply_filters(image_data, image_data_size, header)\<close> works inside the block of
  \<^verbatim>\<open>image_data\<close>; the result is the return value and the new contents of the block. The part
  up to the allocation of the two line buffers is the same in both files: \<open>None\<close> of
  \<open>png_apply_filters_setup\<close> is a \<^verbatim>\<open>return 0\<close>, otherwise it gives \<^verbatim>\<open>bytes_per_pixel\<close> and
  \<^verbatim>\<open>bytes_per_line\<close>.
\<close>

definition png_apply_filters_setup ::
  "(nat \<Rightarrow> bool) \<Rightarrow> uint32_t \<Rightarrow> PNG_IHDR \<Rightarrow> (nat \<times> uint32_t) option" where
  "png_apply_filters_setup malloc_ok image_data_size0 hdr =
     (if width hdr = 0 \<or> height hdr = 0 then None
      else
        (case png_apply_filters_switch (color_type hdr) (bit_depth hdr) of
           None \<Rightarrow> None
         | Some bpp0 \<Rightarrow>
             (case png_apply_filters_adjust (color_type hdr) (bit_depth hdr) bpp0 (width hdr) of
                (bytes_per_pixel, w) \<Rightarrow>
                  if w * of_nat bytes_per_pixel = 0 then None
                  else if image_data_size0 < height hdr * (w * of_nat bytes_per_pixel + 1) then None
                  else if \<not> malloc_ok (unat (w * of_nat bytes_per_pixel)) then None
                  else Some (bytes_per_pixel, w * of_nat bytes_per_pixel))))"

definition png_apply_filters ::
  "(nat \<Rightarrow> bool) \<Rightarrow> uint8_t list option \<Rightarrow> uint32_t \<Rightarrow> PNG_IHDR \<Rightarrow>
     (bool \<times> uint8_t list option) option" where
  "png_apply_filters malloc_ok image_data0 image_data_size0 hdr =
     (case image_data0 of
        None \<Rightarrow> Some (False, None)
      | Some buf \<Rightarrow>
          (case png_apply_filters_setup malloc_ok image_data_size0 hdr of
             None \<Rightarrow> Some (False, Some buf)
           | Some (bytes_per_pixel, bytes_per_line) \<Rightarrow>
               (case png_apply_filters_rows bytes_per_pixel (unat bytes_per_line)
                       [0..<unat (height hdr)] 0 0 buf (replicate (unat bytes_per_line) 0) of
                  None \<Rightarrow> None
                | Some (False, buf') \<Rightarrow> Some (False, Some buf')
                | Some (True, buf') \<Rightarrow>
                    (case png_apply_filters_memmove buf' (height hdr) bytes_per_line of
                       None \<Rightarrow> None
                     | Some buf'' \<Rightarrow> Some (True, Some buf'')))))"

definition png_apply_filters_part2 ::
  "(nat \<Rightarrow> bool) \<Rightarrow> uint8_t list option \<Rightarrow> uint32_t \<Rightarrow> PNG_IHDR \<Rightarrow>
     (bool \<times> uint8_t list option) option" where
  "png_apply_filters_part2 malloc_ok image_data0 image_data_size0 hdr =
     (case image_data0 of
        None \<Rightarrow> Some (False, None)
      | Some buf \<Rightarrow>
          (case png_apply_filters_setup malloc_ok image_data_size0 hdr of
             None \<Rightarrow> Some (False, Some buf)
           | Some (bytes_per_pixel, bytes_per_line) \<Rightarrow>
               (case png_apply_filters_rows_part2 bytes_per_pixel (unat bytes_per_line)
                       [0..<unat (height hdr)] 0 0 buf (replicate (unat bytes_per_line) 0) of
                  None \<Rightarrow> None
                | Some (ok, buf') \<Rightarrow> Some (ok, Some buf'))))"

section \<open>RGBA normaliser\<close>

text \<open>
  \<^verbatim>\<open>src_row[k]\<close>: \<open>src_row\<close> is the offset of the row in the block of \<^verbatim>\<open>image->image_data\<close>,
  \<open>k\<close> the 32-bit index expression of the source.
\<close>

definition src_at :: "PNG_Image \<Rightarrow> nat \<Rightarrow> uint32_t \<Rightarrow> uint8_t option" where
  "src_at img src_row k = do { src \<leftarrow> image_data img; rd src (src_row + unat k) }"

text \<open>
  The extraction of a sample of fewer than 8 bits, written three times in the source:
  \<^verbatim>\<open>shift = 8 - bit_depth - (x * bit_depth) % 8\<close>, \<^verbatim>\<open>mask = (1 << bit_depth) - 1\<close>,
  \<^verbatim>\<open>(src_row[(x * bit_depth) / 8] >> shift) & mask\<close>. A shift count of 32 or more has no
  defined result.
\<close>

definition sub_byte_sample :: "PNG_Image \<Rightarrow> nat \<Rightarrow> uint32_t \<Rightarrow> uint8_t option" where
  "sub_byte_sample img src_row x =
     (let depth = bit_depth (header img);
          shift = (ucast ((8 :: uint32_t) - ucast depth - (x * ucast depth) mod 8) :: uint8_t);
          mask = (push_bit (unat depth) 1 - 1 :: uint8_t)
      in do {
           byte \<leftarrow> src_at img src_row ((x * ucast depth) div 8);
           (if unat shift \<ge> 32 then None else Some (drop_bit (unat shift) byte AND mask))
         })"

text \<open>A 16-bit big-endian sample \<^verbatim>\<open>(src_row[k] << 8) | src_row[k + 1]\<close>.\<close>

definition sample16 :: "PNG_Image \<Rightarrow> nat \<Rightarrow> uint32_t \<Rightarrow> uint16_t option" where
  "sample16 img src_row k =
     do {
       hi \<leftarrow> src_at img src_row k;
       lo \<leftarrow> src_at img src_row (k + 1);
       Some (push_bit 8 (ucast hi) OR ucast lo)
     }"

text \<open>
  The cases of the \<^verbatim>\<open>switch (color_type)\<close> inside the pixel loop. Each takes the values of
  \<^verbatim>\<open>r, g, b, a\<close> before the pixel and returns them after it.
\<close>

type_synonym rgba = "uint8_t \<times> uint8_t \<times> uint8_t \<times> uint8_t"

definition pixel_gray :: "PNG_Image \<Rightarrow> nat \<Rightarrow> uint32_t \<Rightarrow> rgba \<Rightarrow> rgba option" where
  "pixel_gray img src_row x c =
     (case c of (r, g, b, a) \<Rightarrow>
        if bit_depth (header img) = 16 then
          do { gray \<leftarrow> sample16 img src_row (x * 2);
               Some (ucast (drop_bit 8 gray), ucast (drop_bit 8 gray), ucast (drop_bit 8 gray), a) }
        else if bit_depth (header img) \<ge> 8 then
          do { v \<leftarrow> src_at img src_row x; Some (v, v, v, a) }
        else
          do { val \<leftarrow> sub_byte_sample img src_row x;
               (if (2 :: nat) ^ unat (bit_depth (header img)) - 1 = 0 then None
                else Some (of_nat (unat val * 255 div (2 ^ unat (bit_depth (header img)) - 1)),
                           of_nat (unat val * 255 div (2 ^ unat (bit_depth (header img)) - 1)),
                           of_nat (unat val * 255 div (2 ^ unat (bit_depth (header img)) - 1)), a)) })"

definition pixel_rgb :: "PNG_Image \<Rightarrow> nat \<Rightarrow> uint32_t \<Rightarrow> rgba \<Rightarrow> rgba option" where
  "pixel_rgb img src_row x c =
     (case c of (r, g, b, a) \<Rightarrow>
        if bit_depth (header img) = 16 then
          do { r \<leftarrow> src_at img src_row (x * 6);
               g \<leftarrow> src_at img src_row (x * 6 + 2);
               b \<leftarrow> src_at img src_row (x * 6 + 4);
               Some (r, g, b, a) }
        else
          do { r \<leftarrow> src_at img src_row (x * 3);
               g \<leftarrow> src_at img src_row (x * 3 + 1);
               b \<leftarrow> src_at img src_row (x * 3 + 2);
               Some (r, g, b, a) })"

text \<open>
  \<^verbatim>\<open>if (index < image->palette_size) { r = palette[index].red; ... }\<close>: nothing is assigned
  when the index is not below \<^verbatim>\<open>palette_size\<close>.
\<close>

definition palette_lookup :: "PNG_PaletteEntry list \<Rightarrow> uint32_t \<Rightarrow> nat \<Rightarrow> rgba \<Rightarrow> rgba option" where
  "palette_lookup pal pal_size index c =
     (case c of (r, g, b, a) \<Rightarrow>
        if index < unat pal_size then
          do { e \<leftarrow> rd pal index; Some (red e, green e, blue e, a) }
        else Some (r, g, b, a))"

text \<open>\<^verbatim>\<open>if (index < image->transparency_size) a = image->transparency[index]\<close>.\<close>

definition palette_alpha :: "uint8_t list \<Rightarrow> uint32_t \<Rightarrow> nat \<Rightarrow> rgba \<Rightarrow> rgba option" where
  "palette_alpha tr tr_size index c =
     (case c of (r, g, b, a) \<Rightarrow>
        if index < unat tr_size then
          do { a \<leftarrow> rd tr index; Some (r, g, b, a) }
        else Some (r, g, b, a))"

text \<open>
  The case \<^verbatim>\<open>PNG_COLOR_TYPE_PALETTE\<close> after its test of \<^verbatim>\<open>image->palette\<close>, in two steps: the
  colour from the palette, then the alpha from the tRNS table.
\<close>

definition pixel_palette_colour ::
  "PNG_Image \<Rightarrow> PNG_PaletteEntry list \<Rightarrow> nat \<Rightarrow> uint32_t \<Rightarrow> rgba \<Rightarrow> rgba option" where
  "pixel_palette_colour img pal src_row x c =
     (if bit_depth (header img) = 16 then
        do { index \<leftarrow> sample16 img src_row (x * 2);
             palette_lookup pal (palette_size img) (unat index) c }
      else if bit_depth (header img) \<ge> 8 then
        do { index \<leftarrow> src_at img src_row x;
             palette_lookup pal (palette_size img) (unat index) c }
      else
        do { index \<leftarrow> sub_byte_sample img src_row x;
             palette_lookup pal (palette_size img) (unat index) c })"

definition pixel_palette_alpha :: "PNG_Image \<Rightarrow> nat \<Rightarrow> uint32_t \<Rightarrow> rgba \<Rightarrow> rgba option" where
  "pixel_palette_alpha img src_row x c =
     (case transparency img of
        None \<Rightarrow> Some c
      | Some tr \<Rightarrow>
          if bit_depth (header img) \<ge> 8 then
            do { index \<leftarrow> src_at img src_row x;
                 palette_alpha tr (transparency_size img) (unat index) c }
          else
            do { index \<leftarrow> sub_byte_sample img src_row x;
                 palette_alpha tr (transparency_size img) (unat index) c })"

definition pixel_gray_alpha :: "PNG_Image \<Rightarrow> nat \<Rightarrow> uint32_t \<Rightarrow> rgba \<Rightarrow> rgba option" where
  "pixel_gray_alpha img src_row x c =
     (if bit_depth (header img) = 16 then
        do { gray \<leftarrow> sample16 img src_row (x * 4);
             alpha \<leftarrow> sample16 img src_row (x * 4 + 2);
             Some (ucast (drop_bit 8 gray), ucast (drop_bit 8 gray), ucast (drop_bit 8 gray),
                   ucast (drop_bit 8 alpha)) }
      else
        do { v \<leftarrow> src_at img src_row (x * 2);
             a \<leftarrow> src_at img src_row (x * 2 + 1);
             Some (v, v, v, a) })"

definition pixel_rgba :: "PNG_Image \<Rightarrow> nat \<Rightarrow> uint32_t \<Rightarrow> rgba \<Rightarrow> rgba option" where
  "pixel_rgba img src_row x c =
     (if bit_depth (header img) = 16 then
        do { r \<leftarrow> src_at img src_row (x * 8);
             g \<leftarrow> src_at img src_row (x * 8 + 2);
             b \<leftarrow> src_at img src_row (x * 8 + 4);
             a \<leftarrow> src_at img src_row (x * 8 + 6);
             Some (r, g, b, a) }
      else
        do { r \<leftarrow> src_at img src_row (x * 4);
             g \<leftarrow> src_at img src_row (x * 4 + 1);
             b \<leftarrow> src_at img src_row (x * 4 + 2);
             a \<leftarrow> src_at img src_row (x * 4 + 3);
             Some (r, g, b, a) })"

text \<open>
  The block \<^verbatim>\<open>if (color_type == PNG_COLOR_TYPE_GRAY && image->transparency)\<close> that follows the
  switch. In its 16-bit branch the sample is read before \<^verbatim>\<open>transparency_size\<close> is tested.
\<close>

definition trns_gray :: "PNG_Image \<Rightarrow> uint8_t list \<Rightarrow> nat \<Rightarrow> uint32_t \<Rightarrow> rgba \<Rightarrow> rgba option" where
  "trns_gray img tr src_row x c =
     (case c of (r, g, b, a) \<Rightarrow>
        if bit_depth (header img) = 16 then
          do { gray \<leftarrow> sample16 img src_row (x * 2);
               (if transparency_size img \<ge> 2 then
                  do { t0 \<leftarrow> rd tr 0;
                       t1 \<leftarrow> rd tr 1;
                       Some (r, g, b,
                         if gray = (push_bit 8 (ucast t0) OR ucast t1 :: uint16_t) then 0 else 255) }
                else Some (r, g, b, a)) }
        else
          (if transparency_size img \<ge> 1 then
             do { v \<leftarrow> src_at img src_row x;
                  t0 \<leftarrow> rd tr 0;
                  Some (r, g, b, if v = t0 then 0 else 255) }
           else Some (r, g, b, a)))"

text \<open>The block \<^verbatim>\<open>if (color_type == PNG_COLOR_TYPE_RGB && image->transparency)\<close>.\<close>

definition trns_rgb :: "PNG_Image \<Rightarrow> uint8_t list \<Rightarrow> nat \<Rightarrow> uint32_t \<Rightarrow> rgba \<Rightarrow> rgba option" where
  "trns_rgb img tr src_row x c =
     (case c of (r, g, b, a) \<Rightarrow>
        if bit_depth (header img) = 16 then
          (if transparency_size img \<ge> 6 then
             do { r_val \<leftarrow> sample16 img src_row (x * 6);
                  g_val \<leftarrow> sample16 img src_row (x * 6 + 2);
                  b_val \<leftarrow> sample16 img src_row (x * 6 + 4);
                  t0 \<leftarrow> rd tr 0; t1 \<leftarrow> rd tr 1; t2 \<leftarrow> rd tr 2;
                  t3 \<leftarrow> rd tr 3; t4 \<leftarrow> rd tr 4; t5 \<leftarrow> rd tr 5;
                  Some (r, g, b,
                    if r_val = (push_bit 8 (ucast t0) OR ucast t1 :: uint16_t) \<and>
                       g_val = (push_bit 8 (ucast t2) OR ucast t3 :: uint16_t) \<and>
                       b_val = (push_bit 8 (ucast t4) OR ucast t5 :: uint16_t)
                    then 0 else 255) }
           else Some (r, g, b, a))
        else
          (if transparency_size img \<ge> 3 then
             do { v0 \<leftarrow> src_at img src_row (x * 3);
                  t0 \<leftarrow> rd tr 0;
                  (if v0 = t0 then
                     do { v1 \<leftarrow> src_at img src_row (x * 3 + 1);
                          t1 \<leftarrow> rd tr 1;
                          (if v1 = t1 then
                             do { v2 \<leftarrow> src_at img src_row (x * 3 + 2);
                                  t2 \<leftarrow> rd tr 2;
                                  Some (r, g, b, if v2 = t2 then 0 else 255) }
                           else Some (r, g, b, 255)) }
                   else Some (r, g, b, 255)) }
           else Some (r, g, b, a)))"

text \<open>
  The \<^verbatim>\<open>switch (color_type)\<close> of the pixel loop. \<open>(False, c)\<close> is a \<^verbatim>\<open>return 0\<close> from inside
  the loop: the palette pointer is null, or the \<^verbatim>\<open>default\<close> case.
\<close>

definition png_convert_pixel_switch ::
  "PNG_Image \<Rightarrow> nat \<Rightarrow> uint32_t \<Rightarrow> rgba \<Rightarrow> (bool \<times> rgba) option" where
  "png_convert_pixel_switch img src_row x c =
     (if color_type (header img) = PNG_COLOR_TYPE_GRAY then
        do { c \<leftarrow> pixel_gray img src_row x c; Some (True, c) }
      else if color_type (header img) = PNG_COLOR_TYPE_RGB then
        do { c \<leftarrow> pixel_rgb img src_row x c; Some (True, c) }
      else if color_type (header img) = PNG_COLOR_TYPE_PALETTE then
        (case palette img of
           None \<Rightarrow> Some (False, c)
         | Some pal \<Rightarrow>
             do { c \<leftarrow> pixel_palette_colour img pal src_row x c;
                  c \<leftarrow> pixel_palette_alpha img src_row x c;
                  Some (True, c) })
      else if color_type (header img) = PNG_COLOR_TYPE_GRAY_ALPHA then
        do { c \<leftarrow> pixel_gray_alpha img src_row x c; Some (True, c) }
      else if color_type (header img) = PNG_COLOR_TYPE_RGBA then
        do { c \<leftarrow> pixel_rgba img src_row x c; Some (True, c) }
      else Some (False, c))"

text \<open>The two colour-key blocks that follow the switch.\<close>

definition png_convert_pixel_trns :: "PNG_Image \<Rightarrow> nat \<Rightarrow> uint32_t \<Rightarrow> rgba \<Rightarrow> rgba option" where
  "png_convert_pixel_trns img src_row x c =
     (case transparency img of
        None \<Rightarrow> Some c
      | Some tr \<Rightarrow>
          if color_type (header img) = PNG_COLOR_TYPE_GRAY then trns_gray img tr src_row x c
          else if color_type (header img) = PNG_COLOR_TYPE_RGB then trns_rgb img tr src_row x c
          else Some c)"

text \<open>One pixel: from the values of \<^verbatim>\<open>r, g, b, a\<close> before it to the values that are stored.\<close>

definition png_convert_pixel ::
  "PNG_Image \<Rightarrow> nat \<Rightarrow> uint32_t \<Rightarrow> rgba \<Rightarrow> (bool \<times> rgba) option" where
  "png_convert_pixel img src_row x c =
     (case png_convert_pixel_switch img src_row x c of
        None \<Rightarrow> None
      | Some (False, c') \<Rightarrow> Some (False, c')
      | Some (True, c') \<Rightarrow> do { c'' \<leftarrow> png_convert_pixel_trns img src_row x c'; Some (True, c'') })"

text \<open>
  The four stores \<^verbatim>\<open>dst_row[x * 4] = v0; ... dst_row[x * 4 + 3] = v3\<close>, with \<open>dst_row\<close> the
  offset of the row in the output block.
\<close>

definition put_pixel ::
  "uint8_t list \<Rightarrow> nat \<Rightarrow> uint32_t \<Rightarrow> uint8_t \<Rightarrow> uint8_t \<Rightarrow> uint8_t \<Rightarrow> uint8_t \<Rightarrow> uint8_t list option" where
  "put_pixel dst dst_row x v0 v1 v2 v3 =
     do {
       dst \<leftarrow> wr dst (dst_row + unat (x * 4)) [v0];
       dst \<leftarrow> wr dst (dst_row + unat (x * 4 + 1)) [v1];
       dst \<leftarrow> wr dst (dst_row + unat (x * 4 + 2)) [v2];
       wr dst (dst_row + unat (x * 4 + 3)) [v3]
     }"

text \<open>
  The loop over \<^verbatim>\<open>x\<close> in \<^verbatim>\<open>png_decoder.c\<close>: \<^verbatim>\<open>r = 0, g = 0, b = 0, a = 255\<close> is declared inside
  it, and the pixel is stored in the order R, G, B, A.
\<close>

fun png_convert_to_rgba_cols ::
  "PNG_Image \<Rightarrow> nat \<Rightarrow> nat \<Rightarrow> uint32_t list \<Rightarrow> uint8_t list \<Rightarrow> (bool \<times> uint8_t list) option" where
  "png_convert_to_rgba_cols img src_row dst_row [] dst = Some (True, dst)"
| "png_convert_to_rgba_cols img src_row dst_row (x # xs) dst =
     (case png_convert_pixel img src_row x (0, 0, 0, 255) of
        None \<Rightarrow> None
      | Some (False, c) \<Rightarrow> Some (False, dst)
      | Some (True, (r, g, b, a)) \<Rightarrow>
          (case put_pixel dst dst_row x r g b a of
             None \<Rightarrow> None
           | Some dst' \<Rightarrow> png_convert_to_rgba_cols img src_row dst_row xs dst'))"

text \<open>
  The loop over \<^verbatim>\<open>x\<close> in \<^verbatim>\<open>part_002\<close>: \<^verbatim>\<open>r, g, b, a\<close> are declared outside it, once per row,
  so each pixel starts from the values the previous pixel of the row has left; the pixel is
  stored in the order B, G, R, A.
\<close>

fun png_convert_to_rgba_cols_part2 ::
  "PNG_Image \<Rightarrow> nat \<Rightarrow> nat \<Rightarrow> uint32_t list \<Rightarrow> rgba \<Rightarrow> uint8_t list \<Rightarrow> (bool \<times> uint8_t list) option" where
  "png_convert_to_rgba_cols_part2 img src_row dst_row [] c dst = Some (True, dst)"
| "png_convert_to_rgba_cols_part2 img src_row dst_row (x # xs) c dst =
     (case png_convert_pixel img src_row x c of
        None \<Rightarrow> None
      | Some (False, c') \<Rightarrow> Some (False, dst)
      | Some (True, (r, g, b, a)) \<Rightarrow>
          (case put_pixel dst dst_row x b g r a of
             None \<Rightarrow> None
           | Some dst' \<Rightarrow> png_convert_to_rgba_cols_part2 img src_row dst_row xs (r, g, b, a) dst'))"

text \<open>
  The loop over \<^verbatim>\<open>y\<close>: \<^verbatim>\<open>src_row = src + y * src_row_bytes\<close> and
  \<^verbatim>\<open>dst_row = dst + y * width * 4\<close>, both products in 32 bits.
\<close>

fun png_convert_to_rgba_rows ::
  "PNG_Image \<Rightarrow> uint32_t \<Rightarrow> uint32_t list \<Rightarrow> uint8_t list \<Rightarrow> (bool \<times> uint8_t list) option" where
  "png_convert_to_rgba_rows img src_row_bytes [] dst = Some (True, dst)"
| "png_convert_to_rgba_rows img src_row_bytes (y # ys) dst =
     (case png_convert_to_rgba_cols img (unat (y * src_row_bytes))
             (unat (y * width (header img) * 4))
             (map of_nat [0..<unat (width (header img))]) dst of
        None \<Rightarrow> None
      | Some (False, dst') \<Rightarrow> Some (False, dst')
      | Some (True, dst') \<Rightarrow> png_convert_to_rgba_rows img src_row_bytes ys dst')"

fun png_convert_to_rgba_rows_part2 ::
  "PNG_Image \<Rightarrow> uint32_t \<Rightarrow> uint32_t list \<Rightarrow> uint8_t list \<Rightarrow> (bool \<times> uint8_t list) option" where
  "png_convert_to_rgba_rows_part2 img src_row_bytes [] dst = Some (True, dst)"
| "png_convert_to_rgba_rows_part2 img src_row_bytes (y # ys) dst =
     (case png_convert_to_rgba_cols_part2 img (unat (y * src_row_bytes))
             (unat (y * width (header img) * 4))
             (map of_nat [0..<unat (width (header img))]) (0, 0, 0, 255) dst of
        None \<Rightarrow> None
      | Some (False, dst') \<Rightarrow> Some (False, dst')
      | Some (True, dst') \<Rightarrow> png_convert_to_rgba_rows_part2 img src_row_bytes ys dst')"

text \<open>
  The first \<^verbatim>\<open>switch (color_type)\<close> of \<^verbatim>\<open>png_convert_to_rgba\<close> with the doubling for 16 bits
  that follows it: \<^verbatim>\<open>src_bpp\<close> and \<^verbatim>\<open>src_row_bytes\<close>; \<open>None\<close> is the \<^verbatim>\<open>default\<close> case.
\<close>

definition png_convert_to_rgba_switch :: "PNG_IHDR \<Rightarrow> (uint32_t \<times> uint32_t) option" where
  "png_convert_to_rgba_switch hdr =
     (let w = width hdr; depth = bit_depth hdr; ctype = color_type hdr;
          unit = (if depth \<ge> 8 then 1 else 0 :: uint32_t);
          dbl = (if depth = 16 then 2 else 1 :: uint32_t)
      in if ctype = PNG_COLOR_TYPE_GRAY then Some (unit * dbl, (w * ucast depth + 7) div 8 * dbl)
         else if ctype = PNG_COLOR_TYPE_RGB then Some (3 * unit * dbl, w * (3 * unit) * dbl)
         else if ctype = PNG_COLOR_TYPE_PALETTE then Some (1 * dbl, (w * ucast depth + 7) div 8 * dbl)
         else if ctype = PNG_COLOR_TYPE_GRAY_ALPHA then Some (2 * unit * dbl, w * (2 * unit) * dbl)
         else if ctype = PNG_COLOR_TYPE_RGBA then Some (4 * unit * dbl, w * (4 * unit) * dbl)
         else None)"

text \<open>
  \<^verbatim>\<open>png_convert_to_rgba(image, output, output_size)\<close> returns the return value, \<^verbatim>\<open>*output\<close> and
  \<^verbatim>\<open>*output_size\<close>. The three pointers are taken as non-null. The block that \<^verbatim>\<open>malloc\<close>
  returns starts as zeros in the model; the function never reads it.
\<close>

definition png_convert_to_rgba ::
  "(nat \<Rightarrow> bool) \<Rightarrow> PNG_Image \<Rightarrow> (bool \<times> uint8_t list option \<times> uint32_t) option" where
  "png_convert_to_rgba malloc_ok img =
     (let output_size = width (header img) * height (header img) * 4 in
      if \<not> malloc_ok (unat output_size) then Some (False, None, output_size)
      else
        (case png_convert_to_rgba_switch (header img) of
           None \<Rightarrow> Some (False, None, output_size)
         | Some (src_bpp, src_row_bytes) \<Rightarrow>
             if image_data_size img < height (header img) * src_row_bytes then
               Some (False, None, output_size)
             else
               (case png_convert_to_rgba_rows img src_row_bytes
                       (map of_nat [0..<unat (height (header img))])
                       (replicate (unat output_size) 0) of
                  None \<Rightarrow> None
                | Some (False, dst) \<Rightarrow> Some (False, None, output_size)
                | Some (True, dst) \<Rightarrow> Some (True, Some dst, output_size))))"

definition png_convert_to_rgba_part2 ::
  "(nat \<Rightarrow> bool) \<Rightarrow> PNG_Image \<Rightarrow> (bool \<times> uint8_t list option \<times> uint32_t) option" where
  "png_convert_to_rgba_part2 malloc_ok img =
     (let output_size = width (header img) * height (header img) * 4 in
      if \<not> malloc_ok (unat output_size) then Some (False, None, output_size)
      else
        (case png_convert_to_rgba_switch (header img) of
           None \<Rightarrow> Some (False, None, output_size)
         | Some (src_bpp, src_row_bytes) \<Rightarrow>
             if image_data_size img < height (header img) * src_row_bytes then
               Some (False, None, output_size)
             else
               (case png_convert_to_rgba_rows_part2 img src_row_bytes
                       (map of_nat [0..<unat (height (header img))])
                       (replicate (unat output_size) 0) of
                  None \<Rightarrow> None
                | Some (False, dst) \<Rightarrow> Some (False, None, output_size)
                | Some (True, dst) \<Rightarrow> Some (True, Some dst, output_size))))"

section \<open>Document state machine: \<^verbatim>\<open>png_read_file\<close>\<close>

datatype source_file = Png_decoder_c | Part_002

text \<open>The local variables of \<^verbatim>\<open>png_read_file\<close> that the chunk loop changes, with \<^verbatim>\<open>*image\<close>.\<close>

record read_state =
  cur_image :: PNG_Image
  has_ihdr :: bool
  has_idat :: bool
  has_iend :: bool

definition png_validate_signature :: "uint8_t list \<Rightarrow> bool \<times> uint8_t list" where
  "png_validate_signature file =
     (case fread PNG_SIGNATURE_SIZE file of
        (signature, file') \<Rightarrow>
          if length signature \<noteq> PNG_SIGNATURE_SIZE then (False, file')
          else (signature = PNG_SIGNATURE, file'))"

text \<open>
  \<^verbatim>\<open>png_free_chunk\<close>: \<^verbatim>\<open>png_decoder.c\<close> frees the payload and leaves the pointer as it is,
  \<^verbatim>\<open>part_002\<close> also sets it to null. \<^verbatim>\<open>png_free_image\<close> ends with a \<^verbatim>\<open>memset\<close> to zero.
\<close>

definition png_free_chunk :: "source_file \<Rightarrow> PNG_Chunk \<Rightarrow> PNG_Chunk" where
  "png_free_chunk v chunk =
     (case v of Png_decoder_c \<Rightarrow> chunk | Part_002 \<Rightarrow> chunk\<lparr>c_data := None\<rparr>)"

definition png_free_image :: "PNG_Image \<Rightarrow> PNG_Image" where
  "png_free_image img = zero_image"

text \<open>
  The \<^verbatim>\<open>switch (chunk.type)\<close> in the loop of \<^verbatim>\<open>png_read_file\<close>, one definition per case.
  \<open>(False, st)\<close> is the jump to the clean-up that returns 0, \<open>(True, st)\<close> is \<^verbatim>\<open>break\<close>.
  The two files differ in the call of \<^verbatim>\<open>png_parse_trns\<close> only.
\<close>

definition case_IHDR :: "read_state \<Rightarrow> PNG_Chunk \<Rightarrow> (bool \<times> read_state) option" where
  "case_IHDR st chunk =
     (if has_ihdr st then Some (False, st)
      else
        (case png_parse_ihdr chunk (header (cur_image st)) of
           None \<Rightarrow> None
         | Some (ok, ihdr) \<Rightarrow>
             if \<not> ok then Some (False, st\<lparr>cur_image := (cur_image st)\<lparr>header := ihdr\<rparr>\<rparr>)
             else Some (True, st\<lparr>cur_image := (cur_image st)\<lparr>header := ihdr\<rparr>, has_ihdr := True\<rparr>)))"

definition case_PLTE :: "(nat \<Rightarrow> bool) \<Rightarrow> read_state \<Rightarrow> PNG_Chunk \<Rightarrow> (bool \<times> read_state) option" where
  "case_PLTE malloc_ok st chunk =
     (if \<not> has_ihdr st \<or> color_type (header (cur_image st)) = PNG_COLOR_TYPE_GRAY \<or>
         color_type (header (cur_image st)) = PNG_COLOR_TYPE_GRAY_ALPHA then Some (False, st)
      else
        (case png_parse_plte malloc_ok chunk (palette (cur_image st)) (palette_size (cur_image st)) of
           None \<Rightarrow> None
         | Some (ok, pal, n) \<Rightarrow>
             Some (ok, st\<lparr>cur_image := (cur_image st)\<lparr>palette := pal, palette_size := n\<rparr>\<rparr>)))"

definition case_tRNS ::
  "source_file \<Rightarrow> (nat \<Rightarrow> bool) \<Rightarrow> read_state \<Rightarrow> PNG_Chunk \<Rightarrow> (bool \<times> read_state) option" where
  "case_tRNS v malloc_ok st chunk =
     (if \<not> has_ihdr st \<or> color_type (header (cur_image st)) = PNG_COLOR_TYPE_GRAY_ALPHA \<or>
         color_type (header (cur_image st)) = PNG_COLOR_TYPE_RGBA then Some (False, st)
      else
        (case (case v of
                 Png_decoder_c \<Rightarrow>
                   png_parse_trns malloc_ok chunk
                     (transparency (cur_image st)) (transparency_size (cur_image st))
               | Part_002 \<Rightarrow>
                   png_parse_trns_part2 malloc_ok chunk (color_type (header (cur_image st)))
                     (transparency (cur_image st)) (transparency_size (cur_image st))) of
           None \<Rightarrow> None
         | Some (ok, tr, n) \<Rightarrow>
             Some (ok, st\<lparr>cur_image := (cur_image st)\<lparr>transparency := tr, transparency_size := n\<rparr>\<rparr>)))"

definition case_IDAT :: "(nat \<Rightarrow> bool) \<Rightarrow> read_state \<Rightarrow> PNG_Chunk \<Rightarrow> (bool \<times> read_state) option" where
  "case_IDAT malloc_ok st chunk =
     (if \<not> has_ihdr st \<or> has_iend st then Some (False, st)
      else
        (case png_process_idat malloc_ok chunk
                (image_data (cur_image st)) (image_data_size (cur_image st)) of
           None \<Rightarrow> None
         | Some (ok, d, n) \<Rightarrow>
             if \<not> ok then
               Some (False, st\<lparr>cur_image := (cur_image st)\<lparr>image_data := d, image_data_size := n\<rparr>\<rparr>)
             else
               Some (True, st\<lparr>cur_image := (cur_image st)\<lparr>image_data := d, image_data_size := n\<rparr>,
                               has_idat := True\<rparr>)))"

definition case_IEND :: "read_state \<Rightarrow> (bool \<times> read_state) option" where
  "case_IEND st =
     (if \<not> has_ihdr st \<or> \<not> has_idat st then Some (False, st)
      else Some (True, st\<lparr>has_iend := True\<rparr>))"

definition png_read_file_switch ::
  "source_file \<Rightarrow> (nat \<Rightarrow> bool) \<Rightarrow> read_state \<Rightarrow> PNG_Chunk \<Rightarrow> (bool \<times> read_state) option" where
  "png_read_file_switch v malloc_ok st chunk =
     (if c_type chunk = PNG_CHUNK_IHDR then case_IHDR st chunk
      else if c_type chunk = PNG_CHUNK_PLTE then case_PLTE malloc_ok st chunk
      else if c_type chunk = PNG_CHUNK_tRNS then case_tRNS v malloc_ok st chunk
      else if c_type chunk = PNG_CHUNK_IDAT then case_IDAT malloc_ok st chunk
      else if c_type chunk = PNG_CHUNK_IEND then case_IEND st
      else Some (True, st))"

text \<open>
  The loop \<^verbatim>\<open>while (!has_iend && png_read_chunk(file, &chunk)) { switch ...; png_free_chunk(&chunk); }\<close>.
  \<open>Some (True, st)\<close> is the normal end of the loop, \<open>Some (False, st)\<close> the jump to the
  clean-up. Every chunk that is read takes at least twelve octets from the file, so the loop
  ends.
\<close>

function png_read_file_loop ::
  "source_file \<Rightarrow> (nat \<Rightarrow> bool) \<Rightarrow> read_state \<Rightarrow> uint8_t list \<Rightarrow> PNG_Chunk \<Rightarrow>
     (bool \<times> read_state) option" where
  "png_read_file_loop v malloc_ok st file chunk =
     (if has_iend st then Some (True, st)
      else
        (case png_read_chunk malloc_ok (Some file) chunk of
           (ok, chunk', file', live) \<Rightarrow>
             if \<not> ok then Some (True, st)
             else
               (case png_read_file_switch v malloc_ok st chunk' of
                  None \<Rightarrow> None
                | Some (cont, st') \<Rightarrow>
                    if \<not> cont then Some (False, st')
                    else png_read_file_loop v malloc_ok st' file' (png_free_chunk v chunk'))))"
  by pat_completeness auto
termination
proof (relation "measure (\<lambda>(v, malloc_ok, st, file, chunk). length file)", goal_cases)
  case 1
  show ?case by simp
next
  case (2 v malloc_ok st fl chunk ok y chunk' z fl' live w cont st')
  then have rd: "png_read_chunk malloc_ok (Some fl) chunk = (True, chunk', fl', live)"
    by simp
  obtain length_buf f1 where f1: "fread 4 fl = (length_buf, f1)"
    by (cases "fread 4 fl")
  obtain len where len: "read_uint32_be length_buf = Some len"
    using rd f1 by (auto simp: png_read_chunk_def Let_def split: option.splits)
  have "4 \<le> length length_buf"
    using len by (cases length_buf rule: read_uint32_be.cases) auto
  then have l4: "4 \<le> length fl" and lf1: "length f1 = length fl - 4"
    using f1 by (auto simp: fread_def)
  have "length fl' \<le> length f1"
    using rd f1 len
    by (auto simp: png_read_chunk_def png_read_chunk_data_def png_read_chunk_crc_def
          png_read_chunk_fail_def fread_def Let_def
          split: option.splits if_splits prod.splits)
  then have "length fl' < length fl"
    using l4 lf1 by linarith
  then show ?case
    by simp
qed

declare png_read_file_loop.simps [simp del]

text \<open>
  The part of \<^verbatim>\<open>png_read_file\<close> after the chunk loop: decompression, then the filters. When
  \<^verbatim>\<open>png_decompress_data\<close> returns 1 with the address of a freed block, that address is
  stored in \<^verbatim>\<open>image->image_data\<close> with the size 0, and every path from there uses the freed
  block: \<^verbatim>\<open>png_apply_filters\<close> either reads it or returns 0, and then \<^verbatim>\<open>png_free_image\<close> frees
  it again.
\<close>

definition png_read_file_finish ::
  "source_file \<Rightarrow> (nat \<Rightarrow> bool) \<Rightarrow> 'z zlib_functions \<Rightarrow> PNG_Image \<Rightarrow>
     (bool \<times> PNG_Image) outcome" where
  "png_read_file_finish v malloc_ok zlib img =
     (case png_decompress_data zlib malloc_ok (image_data img) (image_data_size img) Null_ptr 0 of
        Never_returns \<Rightarrow> Never_returns
      | Undefined \<Rightarrow> Undefined
      | Returns (ok, decompressed, decompressed_size) \<Rightarrow>
          if \<not> ok then Returns (False, png_free_image img)
          else
            (case decompressed of
               Freed_ptr \<Rightarrow> Undefined
             | Null_ptr \<Rightarrow> Returns (False, png_free_image img)
             | Block raw \<Rightarrow>
                 (case (case v of
                          Png_decoder_c \<Rightarrow>
                            png_apply_filters malloc_ok (Some raw) decompressed_size (header img)
                        | Part_002 \<Rightarrow>
                            png_apply_filters_part2 malloc_ok (Some raw) decompressed_size
                              (header img)) of
                    None \<Rightarrow> Undefined
                  | Some (ok, buf) \<Rightarrow>
                      if \<not> ok then Returns (False, png_free_image img)
                      else Returns (True, img\<lparr>image_data := buf,
                                                image_data_size := decompressed_size\<rparr>))))"

text \<open>
  \<^verbatim>\<open>png_read_file(filename, image)\<close>. The file behind \<^verbatim>\<open>filename\<close> is \<open>file0\<close>: \<open>None\<close> when
  \<^verbatim>\<open>fopen\<close> fails, otherwise its octets. \<open>image0\<close> is \<^verbatim>\<open>*image\<close> on entry; the result is the
  return value and \<^verbatim>\<open>*image\<close> on return. The local \<^verbatim>\<open>chunk\<close> starts without a value;
  \<^verbatim>\<open>png_read_chunk\<close> clears it before anything else.
\<close>

definition png_read_file ::
  "source_file \<Rightarrow> (nat \<Rightarrow> bool) \<Rightarrow> 'z zlib_functions \<Rightarrow> uint8_t list option \<Rightarrow> PNG_Image \<Rightarrow>
     (bool \<times> PNG_Image) outcome" where
  "png_read_file v malloc_ok zlib file0 image0 =
     (case file0 of
        None \<Rightarrow> Returns (False, image0)
      | Some file \<Rightarrow>
          (case png_validate_signature file of
             (sig_ok, file') \<Rightarrow>
               if \<not> sig_ok then Returns (False, image0)
               else
                 (case png_read_file_loop v malloc_ok
                         \<lparr>cur_image = zero_image, has_ihdr = False, has_idat = False,
                          has_iend = False\<rparr> file' zero_chunk of
                    None \<Rightarrow> Undefined
                  | Some (ok, st) \<Rightarrow>
                      if \<not> ok then Returns (False, png_free_image (cur_image st))
                      else if \<not> has_ihdr st \<or> \<not> has_idat st \<or> \<not> has_iend st then
                        Returns (False, png_free_image (cur_image st))
                      else png_read_file_finish v malloc_ok zlib (cur_image st))))"

section \<open>Files used in the scenarios\<close>

text \<open>
  \<^verbatim>\<open>DisplayImage\<close> of the viewer decodes a file with \<^verbatim>\<open>png_read_file\<close> followed by
  \<^verbatim>\<open>png_convert_to_rgba\<close>, into a local \<^verbatim>\<open>PNG_Image\<close> (\<open>image0\<close>: its contents before the
  call). The value that \<open>full_decode\<close> returns is the output block, \<open>None\<close> when one of the two
  calls returns 0.
\<close>

definition full_decode ::
  "source_file \<Rightarrow> (nat \<Rightarrow> bool) \<Rightarrow> 'z zlib_functions \<Rightarrow> uint8_t list option \<Rightarrow> PNG_Image \<Rightarrow>
     uint8_t list option outcome" where
  "full_decode v malloc_ok zlib file0 image0 =
     (case png_read_file v malloc_ok zlib file0 image0 of
        Never_returns \<Rightarrow> Never_returns
      | Undefined \<Rightarrow> Undefined
      | Returns (ok, img) \<Rightarrow>
          if \<not> ok then Returns None
          else
            (case (case v of
                     Png_decoder_c \<Rightarrow> png_convert_to_rgba malloc_ok img
                   | Part_002 \<Rightarrow> png_convert_to_rgba_part2 malloc_ok img) of
               None \<Rightarrow> Undefined
             | Some (ok', output, output_size) \<Rightarrow>
                 if \<not> ok' then Returns None else Returns output))"

text \<open>The payload of the IHDR chunk of a 1x1 RGB image of bit depth 8.\<close>

definition s1_ihdr :: "uint8_t list" where
  "s1_ihdr =
    [0x00, 0x00, 0x00, 0x01, 0x00, 0x00, 0x00, 0x01, 0x08, 0x02, 0x00, 0x00, 0x00]"

text \<open>
  The zlib stream of the four octets 00 FF 00 00: filter type 0 and the pixel FF 00 00.
\<close>

definition s1_idat :: "uint8_t list" where
  "s1_idat =
    [0x78, 0xDA, 0x63, 0xF8, 0xCF, 0xC0, 0x00, 0x00, 0x03, 0x01, 0x01, 0x00]"

text \<open>
  Scenario S1, a 1x1 RGB image of bit depth 8: signature, IHDR, one IDAT holding \<open>s1_idat\<close>,
  IEND.
\<close>

definition s1_png :: "uint8_t list" where
  "s1_png =
    [0x89, 0x50, 0x4E, 0x47, 0x0D, 0x0A, 0x1A, 0x0A, 0x00, 0x00, 0x00, 0x0D,
     0x49, 0x48, 0x44, 0x52, 0x00, 0x00, 0x00, 0x01, 0x00, 0x00, 0x00, 0x01,
     0x08, 0x02, 0x00, 0x00, 0x00, 0x90, 0x77, 0x53, 0xDE, 0x00, 0x00, 0x00,
     0x0C, 0x49, 0x44, 0x41, 0x54, 0x78, 0xDA, 0x63, 0xF8, 0xCF, 0xC0, 0x00,
     0x00, 0x03, 0x01, 0x01, 0x00, 0xF7, 0x03, 0x41, 0x43, 0x00, 0x00, 0x00,
     0x00, 0x49, 0x45, 0x4E, 0x44, 0xAE, 0x42, 0x60, 0x82]"

text \<open>
  The zlib stream of the two octets 00 80: filter type 0 and the gray sample 80.
\<close>

definition s4_idat :: "uint8_t list" where
  "s4_idat =
    [0x78, 0xDA, 0x63, 0x68, 0x00, 0x00, 0x00, 0x82, 0x00, 0x81]"

text \<open>
  Scenario S4, a 1x1 GRAY image of bit depth 8: signature, IHDR, tRNS with the payload 00 80
  (the 16-bit gray value 0x0080), one IDAT holding \<open>s4_idat\<close>, IEND.
\<close>

definition s4_png :: "uint8_t list" where
  "s4_png =
    [0x89, 0x50, 0x4E, 0x47, 0x0D, 0x0A, 0x1A, 0x0A, 0x00, 0x00, 0x00, 0x0D,
     0x49, 0x48, 0x44, 0x52, 0x00, 0x00, 0x00, 0x01, 0x00, 0x00, 0x00, 0x01,
     0x08, 0x00, 0x00, 0x00, 0x00, 0x3A, 0x7E, 0x9B, 0x55, 0x00, 0x00, 0x00,
     0x02, 0x74, 0x52, 0x4E, 0x53, 0x00, 0x80, 0x9B, 0x2B, 0x4E, 0x18, 0x00,
     0x00, 0x00, 0x0A, 0x49, 0x44, 0x41, 0x54, 0x78, 0xDA, 0x63, 0x68, 0x00,
     0x00, 0x00, 0x82, 0x00, 0x81, 0xDA, 0x45, 0x08, 0x3B, 0x00, 0x00, 0x00,
     0x00, 0x49, 0x45, 0x4E, 0x44, 0xAE, 0x42, 0x60, 0x82]"

text \<open>
  The file \<open>s1_png\<close> with an empty chunk of the unknown type \<^verbatim>\<open>ABCD\<close> (first letter
  uppercase) between IHDR and IDAT.
\<close>

definition critical_png :: "uint8_t list" where
  "critical_png =
    [0x89, 0x50, 0x4E, 0x47, 0x0D, 0x0A, 0x1A, 0x0A, 0x00, 0x00, 0x00, 0x0D,
     0x49, 0x48, 0x44, 0x52, 0x00, 0x00, 0x00, 0x01, 0x00, 0x00, 0x00, 0x01,
     0x08, 0x02, 0x00, 0x00, 0x00, 0x90, 0x77, 0x53, 0xDE, 0x00, 0x00, 0x00,
     0x00, 0x41, 0x42, 0x43, 0x44, 0xDB, 0x17, 0x20, 0xA5, 0x00, 0x00, 0x00,
     0x0C, 0x49, 0x44, 0x41, 0x54, 0x78, 0xDA, 0x63, 0xF8, 0xCF, 0xC0, 0x00,
     0x00, 0x03, 0x01, 0x01, 0x00, 0xF7, 0x03, 0x41, 0x43, 0x00, 0x00, 0x00,
     0x00, 0x49, 0x45, 0x4E, 0x44, 0xAE, 0x42, 0x60, 0x82]"


text \<open>
  The zlib stream of the two octets 00 00: filter type 0 and the palette index 0.
\<close>

definition no_plte_idat :: "uint8_t list" where
  "no_plte_idat =
    [0x78, 0xDA, 0x63, 0x60, 0x00, 0x00, 0x00, 0x02, 0x00, 0x01]"


text \<open>
  A stand-in for zlib on the three compressed streams above, with what zlib gives for them;
  every other input is taken as corrupt data, for which \<^verbatim>\<open>inflate\<close> returns \<^verbatim>\<open>Z_DATA_ERROR\<close> at
  every call. The stream holds the octets that are still to be written, \<open>None\<close> for corrupt
  data.
\<close>

definition test_inflateInit :: "uint8_t list \<Rightarrow> int \<times> uint8_t list option" where
  "test_inflateInit compressed =
     (Z_OK,
      if compressed = s1_idat then Some [0x00, 0xFF, 0x00, 0x00]
      else if compressed = s4_idat then Some [0x00, 0x80]
      else if compressed = no_plte_idat then Some [0x00, 0x00]
      else None)"

definition test_inflate ::
  "uint8_t list option \<Rightarrow> nat \<Rightarrow> int \<times> uint8_t list \<times> uint8_t list option" where
  "test_inflate stream avail_out =
     (case stream of
        None \<Rightarrow> (Z_DATA_ERROR, [], None)
      | Some pending \<Rightarrow>
          if length pending \<le> avail_out then (Z_STREAM_END, pending, Some [])
          else (Z_OK, take avail_out pending, Some (drop avail_out pending)))"

definition test_zlib :: "uint8_t list option zlib_functions" where
  "test_zlib = \<lparr>inflateInit = test_inflateInit, inflate = test_inflate\<rparr>"

text \<open>The image that \<^verbatim>\<open>png_read_file\<close> has built from a 1x1 file with one IDAT chunk.\<close>

definition image_1x1 :: "uint8_t \<Rightarrow> uint8_t \<Rightarrow> uint8_t list \<Rightarrow> PNG_Image" where
  "image_1x1 ctype depth raster =
     \<lparr>header = \<lparr>width = 1, height = 1, bit_depth = depth, color_type = ctype,
                 compression_method = 0, filter_method = 0, interlace_method = 0\<rparr>,
      palette = None, palette_size = 0, transparency = None, transparency_size = 0,
      image_data = Some raster, image_data_size = of_nat (length raster)\<rparr>"

text \<open>
  A 1x1 PALETTE image of bit depth 8 whose palette has one entry and whose only pixel has the
  index 5.
\<close>

definition one_colour_image :: PNG_Image where
  "one_colour_image =
     (image_1x1 PNG_COLOR_TYPE_PALETTE 8 [0x05])
       \<lparr>palette := Some [\<lparr>red = 1, green = 2, blue = 3\<rparr>], palette_size := 1\<rparr>"

text \<open>
  A PALETTE image of bit depth 8, two pixels wide and one high, whose palette has the one
  entry 1, 2, 3 and whose pixels have the indices 0 and 5.
\<close>

definition two_pixel_image :: PNG_Image where
  "two_pixel_image =
     \<lparr>header = \<lparr>width = 2, height = 1, bit_depth = 8, color_type = PNG_COLOR_TYPE_PALETTE,
                 compression_method = 0, filter_method = 0, interlace_method = 0\<rparr>,
      palette = Some [\<lparr>red = 1, green = 2, blue = 3\<rparr>], palette_size = 1,
      transparency = None, transparency_size = 0,
      image_data = Some [0x00, 0x05], image_data_size = 2\<rparr>"

section \<open>Specification-side notions\<close>

text \<open>
  A chunk as \<^verbatim>\<open>png_read_chunk\<close> delivers it: the payload block holds \<^verbatim>\<open>length\<close> octets, and
  the pointer is null exactly when the length is zero.
\<close>

definition chunk_wf :: "PNG_Chunk \<Rightarrow> bool" where
  "chunk_wf chunk =
     (case c_data chunk of
        None \<Rightarrow> c_length chunk = 0
      | Some data \<Rightarrow> c_length chunk \<noteq> 0 \<and> length data = unat (c_length chunk))"

text \<open>The table of legal (colour type, bit depth) pairs of the specification.\<close>

definition legal_pair :: "uint8_t \<Rightarrow> uint8_t \<Rightarrow> bool" where
  "legal_pair ctype depth =
     (ctype = 0 \<and> (depth = 1 \<or> depth = 2 \<or> depth = 4 \<or> depth = 8 \<or> depth = 16) \<or>
      ctype = 2 \<and> (depth = 8 \<or> depth = 16) \<or>
      ctype = 3 \<and> (depth = 1 \<or> depth = 2 \<or> depth = 4 \<or> depth = 8) \<or>
      ctype = 4 \<and> (depth = 8 \<or> depth = 16) \<or>
      ctype = 6 \<and> (depth = 8 \<or> depth = 16))"

text \<open>
  A chunk type is known when the switch of \<^verbatim>\<open>png_read_file\<close> has a case for it. Its first
  letter is uppercase when bit \<^verbatim>\<open>0x20\<close> of the first type octet, bit 29 of the 32-bit type, is
  clear.
\<close>

definition known_type :: "uint32_t \<Rightarrow> bool" where
  "known_type ty =
     (ty = PNG_CHUNK_IHDR \<or> ty = PNG_CHUNK_PLTE \<or> ty = PNG_CHUNK_tRNS \<or>
      ty = PNG_CHUNK_IDAT \<or> ty = PNG_CHUNK_IEND)"

definition first_letter_uppercase :: "uint32_t \<Rightarrow> bool" where
  "first_letter_uppercase ty = (\<not> bit ty 29)"

text \<open>
  The predictors of the specification (section 4.6) for the filter types 0 to 4, from the
  reconstructed left neighbour \<open>a\<close>, the neighbour above \<open>b\<close> and the upper-left neighbour
  \<open>c\<close>: None, Sub, Up, Average (the floor of half the unsigned sum) and Paeth.
\<close>

definition predictor :: "uint8_t \<Rightarrow> uint8_t \<Rightarrow> uint8_t \<Rightarrow> uint8_t \<Rightarrow> uint8_t" where
  "predictor f a b c =
     (if f = 0 then 0
      else if f = 1 then a
      else if f = 2 then b
      else if f = 3 then word_of_int ((uint a + uint b) div 2)
      else if f = 4 then
        (let p = uint a + uint b - uint c;
             pa = \<bar>p - uint a\<bar>;
             pb = \<bar>p - uint b\<bar>;
             pc = \<bar>p - uint c\<bar>
         in if pa \<le> pb \<and> pa \<le> pc then a else if pb \<le> pc then b else c)
      else 0)"

text \<open>
  \<open>out\<close> holds the reverse-filtered raster of the \<open>h\<close> scanlines stored in \<open>buf\<close>, tightly
  packed from offset 0: every octet is the stored octet plus the predictor of its
  reconstructed neighbours, modulo 256, with 0 for a neighbour outside the raster.
\<close>

definition reverse_filtered :: "nat \<Rightarrow> nat \<Rightarrow> nat \<Rightarrow> uint8_t list \<Rightarrow> uint8_t list \<Rightarrow> bool" where
  "reverse_filtered bpp stride h buf out \<longleftrightarrow>
     (\<forall>y < h. \<forall>x < stride.
        out ! (y * stride + x) =
          buf ! (y * (stride + 1) + 1 + x) +
          predictor (buf ! (y * (stride + 1)))
            (if bpp \<le> x then out ! (y * stride + x - bpp) else 0)
            (if 0 < y then out ! ((y - 1) * stride + x) else 0)
            (if bpp \<le> x \<and> 0 < y then out ! ((y - 1) * stride + x - bpp) else 0))"

text \<open>
  The octets of a chunk in a PNG stream: the length of the payload, the type, the payload,
  and the CRC-32 of type and payload; each of the three numbers as four octets, the most
  significant first. A stream of chunks is the concatenation of its chunks.
\<close>

definition be32 :: "uint32_t \<Rightarrow> uint8_t list" where
  "be32 w = [ucast (drop_bit 24 w), ucast (drop_bit 16 w), ucast (drop_bit 8 w), ucast w]"

definition chunk_bytes :: "uint32_t \<Rightarrow> uint8_t list \<Rightarrow> uint8_t list" where
  "chunk_bytes ty payload =
     be32 (of_nat (length payload)) @ be32 ty @ payload @ be32 (png_crc32 0 (be32 ty @ payload))"

fun stream_bytes :: "(uint32_t \<times> uint8_t list) list \<Rightarrow> uint8_t list" where
  "stream_bytes [] = []"
| "stream_bytes ((ty, payload) # cs) = chunk_bytes ty payload @ stream_bytes cs"

text \<open>
  A chunk of the stream can be delivered by \<^verbatim>\<open>png_read_chunk\<close> when its payload is not longer
  than \<^verbatim>\<open>MAX_CHUNK_LENGTH\<close> and the block for a payload that is not empty is granted;
  \<open>delivered\<close> is the \<^verbatim>\<open>PNG_Chunk\<close> that the caller then holds.
\<close>

definition deliverable :: "(nat \<Rightarrow> bool) \<Rightarrow> uint8_t list \<Rightarrow> bool" where
  "deliverable malloc_ok payload \<longleftrightarrow>
     length payload \<le> unat MAX_CHUNK_LENGTH \<and> (payload = [] \<or> malloc_ok (length payload))"

definition delivered :: "uint32_t \<Rightarrow> uint8_t list \<Rightarrow> PNG_Chunk" where
  "delivered ty payload =
     \<lparr>c_length = of_nat (length payload), c_type = ty,
      c_data = (if payload = [] then None else Some payload),
      c_crc = png_crc32 0 (be32 ty @ payload)\<rparr>"

text \<open>
  The chunk loop of \<^verbatim>\<open>png_read_file\<close> over a list of chunks instead of the octets of a file,
  for the proofs: \<open>Inl r\<close> when the loop ends within the list with the result \<open>r\<close>,
  \<open>Inr st\<close> when it has gone through the whole list and stands in the state \<open>st\<close>.
\<close>

fun run_chunks ::
  "source_file \<Rightarrow> (nat \<Rightarrow> bool) \<Rightarrow> read_state \<Rightarrow> (uint32_t \<times> uint8_t list) list \<Rightarrow>
     (bool \<times> read_state) option + read_state" where
  "run_chunks v malloc_ok st [] = Inr st"
| "run_chunks v malloc_ok st ((ty, payload) # cs) =
     (if has_iend st \<or> \<not> deliverable malloc_ok payload then Inl (Some (True, st))
      else
        (case png_read_file_switch v malloc_ok st (delivered ty payload) of
           None \<Rightarrow> Inl None
         | Some (cont, st') \<Rightarrow>
             if \<not> cont then Inl (Some (False, st')) else run_chunks v malloc_ok st' cs))"




text \<open>
  The palette index of the pixel in column \<open>x\<close> as the case \<^verbatim>\<open>PNG_COLOR_TYPE_PALETTE\<close> extracts
  it for the lookup in the palette: a 16-bit sample, an octet, or a sample of fewer than 8
  bits.
\<close>

definition palette_index :: "PNG_Image \<Rightarrow> nat \<Rightarrow> uint32_t \<Rightarrow> nat option" where
  "palette_index img src_row x =
     (if bit_depth (header img) = 16 then map_option unat (sample16 img src_row (x * 2))
      else if bit_depth (header img) \<ge> 8 then map_option unat (src_at img src_row x)
      else map_option unat (sub_byte_sample img src_row x))"

section \<open>Evaluation rules\<close>

lemma crc_table_unfold:
  "crc_table i = crc_table_round (crc_table_round (crc_table_round (crc_table_round
     (crc_table_round (crc_table_round (crc_table_round (crc_table_round i)))))))"
  by (simp add: crc_table_def eval_nat_numeral funpow_swap1)

lemmas const_eval = PNG_CHUNK_IHDR_def PNG_CHUNK_IDAT_def PNG_CHUNK_IEND_def PNG_CHUNK_PLTE_def
  PNG_CHUNK_tRNS_def PNG_COLOR_TYPE_GRAY_def PNG_COLOR_TYPE_RGB_def PNG_COLOR_TYPE_PALETTE_def
  PNG_COLOR_TYPE_GRAY_ALPHA_def PNG_COLOR_TYPE_RGBA_def PNG_COMPRESSION_METHOD_DEFLATE_def
  PNG_FILTER_METHOD_ADAPTIVE_def PNG_INTERLACE_METHOD_NONE_def PNG_INTERLACE_METHOD_ADAM7_def
  PNG_SIGNATURE_def PNG_SIGNATURE_SIZE_def MAX_CHUNK_LENGTH_def

lemmas chunk_eval = png_read_chunk_def png_read_chunk_data_def png_read_chunk_crc_def
  png_read_chunk_fail_def fread_def zero_chunk_def Let_def png_crc32_def
  crc_table_unfold crc_table_round_def

lemmas switch_eval = png_read_file_switch_def case_IHDR_def case_PLTE_def case_tRNS_def
  case_IDAT_def case_IEND_def png_parse_ihdr_def png_parse_ihdr_checks_def rd_def wr_def
  png_process_idat_def png_parse_plte_def png_parse_plte_entry_def png_parse_trns_def
  png_parse_trns_part2_def chunk_payload_def png_free_chunk_def png_free_image_def
  zero_image_def zero_ihdr_def upt_rec

lemmas filters_eval = png_apply_filters_def png_apply_filters_part2_def
  png_apply_filters_setup_def png_apply_filters_switch_def png_apply_filters_adjust_def
  png_apply_filters_byte_def png_apply_filters_memmove_def rd_def wr_def rdn_def Let_def upt_rec

lemmas zlib_eval = png_decompress_data_def png_decompress_data_loop.simps rdn_def
  test_zlib_def test_inflateInit_def test_inflate_def Z_OK_def Z_STREAM_END_def
  Z_STREAM_ERROR_def Z_DATA_ERROR_def s1_idat_def s4_idat_def no_plte_idat_def

lemmas loop_eval = png_read_file_def png_validate_signature_def png_read_file_loop.simps
  png_read_file_finish_def chunk_eval switch_eval const_eval

lemmas read_file_eval = loop_eval zlib_eval filters_eval

lemmas convert_eval = png_convert_to_rgba_def png_convert_to_rgba_part2_def
  png_convert_to_rgba_switch_def png_convert_pixel_def png_convert_pixel_switch_def
  png_convert_pixel_trns_def put_pixel_def pixel_gray_def pixel_rgb_def
  pixel_palette_colour_def pixel_palette_alpha_def palette_lookup_def palette_alpha_def
  pixel_gray_alpha_def pixel_rgba_def trns_gray_def trns_rgb_def src_at_def sample16_def
  sub_byte_sample_def rd_def wr_def Let_def image_1x1_def const_eval

lemmas stream_eval = chunk_bytes_def be32_def

text \<open>
  The loop of \<^verbatim>\<open>png_decompress_data\<close> never ends when \<^verbatim>\<open>inflate\<close> keeps returning a code other
  than \<^verbatim>\<open>Z_STREAM_ERROR\<close> and \<^verbatim>\<open>Z_STREAM_END\<close> without writing anything, as zlib does with
  \<^verbatim>\<open>Z_DATA_ERROR\<close> on corrupt data and with \<^verbatim>\<open>Z_BUF_ERROR\<close> on a stream that is cut short
  (\<open>I\<close>: the streams in which zlib is stuck in this way). So \<^verbatim>\<open>png_read_file\<close> does not return
  for a file whose chunks are in order and whose IDAT payload is corrupt.
\<close>

lemma png_decompress_data_loop_hangs:
  assumes stuck: "\<And>s n. I s \<Longrightarrow> \<exists>ret s'. inflate zlib s n = (ret, [], s') \<and> I s' \<and>
                       ret \<noteq> Z_STREAM_ERROR \<and> ret \<noteq> Z_STREAM_END"
    and start: "I stream"
    and room: "buffer_size \<noteq> total_size"
  shows "png_decompress_data_loop zlib malloc_ok stream buffer_size total_size decompressed = None"
proof (rule ccontr)
  assume "png_decompress_data_loop zlib malloc_ok stream buffer_size total_size decompressed \<noteq> None"
  then obtain y where y:
    "png_decompress_data_loop zlib malloc_ok stream buffer_size total_size decompressed = Some y"
    by auto
  have "zlib = zlib \<longrightarrow> I stream \<longrightarrow> buffer_size \<noteq> total_size \<longrightarrow> False"
    apply (rule png_decompress_data_loop.raw_induct
      [where P = "\<lambda>z m s bs ts d y. z = zlib \<longrightarrow> I s \<longrightarrow> bs \<noteq> ts \<longrightarrow> False", OF _ y])
    subgoal premises prems for f z m s bs ts d y'
    proof (intro impI)
      assume z: "z = zlib" and s: "I s" and r: "bs \<noteq> ts"
      obtain ret s' where i: "inflate zlib s (unat (bs - ts)) = (ret, [], s')"
        and s': "I s'" and ne: "ret \<noteq> Z_STREAM_ERROR" "ret \<noteq> Z_STREAM_END"
        using stuck [OF s, of "unat (bs - ts)"] by blast
      have "f z m s' bs ts d = Some y'"
        using prems(2) z r i ne by (simp add: Let_def)
      then show False using prems(1) z r s' by blast
    qed
    done
  then show False using start room by simp
qed

lemma png_decompress_data_corrupt:
  "png_decompress_data test_zlib (\<lambda>_. True) (Some [0x01, 0x02, 0x03]) 3 Null_ptr 0 = Never_returns"
proof -
  have "png_decompress_data_loop test_zlib (\<lambda>_. True) None 4096 0 [] = None"
    by (rule png_decompress_data_loop_hangs [where I = "\<lambda>s. s = None"])
       (simp_all add: test_zlib_def test_inflate_def Z_DATA_ERROR_def Z_STREAM_ERROR_def
          Z_STREAM_END_def)
  then show ?thesis
    by (simp add: png_decompress_data_def rdn_def test_zlib_def test_inflateInit_def Z_OK_def
         s1_idat_def s4_idat_def no_plte_idat_def)
qed

lemma png_read_file_corrupt:
  "png_read_file v (\<lambda>_. True) test_zlib
     (Some (PNG_SIGNATURE @
        stream_bytes [(PNG_CHUNK_IHDR, s1_ihdr), (PNG_CHUNK_IDAT, [0x01, 0x02, 0x03]),
                      (PNG_CHUNK_IEND, [])])) image0 = Never_returns"
  by (cases v) (simp_all add: loop_eval stream_eval s1_ihdr_def png_decompress_data_corrupt)

text \<open>
  What \<^verbatim>\<open>png_read_file\<close> does with the file of scenario S1 in the two versions of the decoder:
  \<^verbatim>\<open>png_decoder.c\<close> returns 1 with a raster of zeros, \<^verbatim>\<open>part_002\<close> runs into the copy past the
  end of its line buffers.
\<close>

lemma read_s1_png_decoder_c:
  "png_read_file Png_decoder_c (\<lambda>_. True) test_zlib (Some s1_png) image0 =
     Returns (True, image_1x1 2 8 [0x00, 0x00, 0x00, 0x00])"
  by (simp add: read_file_eval s1_png_def image_1x1_def)

lemma read_s1_part2:
  "png_read_file Part_002 (\<lambda>_. True) test_zlib (Some s1_png) image0 = Undefined"
  by (simp add: read_file_eval s1_png_def image_1x1_def)

text \<open>The state of the chunk loop before the first chunk.\<close>

lemma png_read_file_loop_s1:
  "png_read_file_loop v (\<lambda>_. True)
      \<lparr>cur_image = zero_image, has_ihdr = False, has_idat = False, has_iend = False\<rparr>
      (drop 8 s1_png) zero_chunk =
   Some (True, \<lparr>cur_image = image_1x1 PNG_COLOR_TYPE_RGB 8 s1_idat,
                 has_ihdr = True, has_idat = True, has_iend = True\<rparr>)"
  by (cases v) (simp_all add: read_file_eval s1_png_def image_1x1_def)

section \<open>The chunk reader never hands out a partial chunk\<close>

text \<open>
  Claim C10. Whenever \<^verbatim>\<open>png_read_chunk\<close>, called on an open file, returns 0 (the file ends
  early, the length is above \<^verbatim>\<open>MAX_CHUNK_LENGTH\<close>, the allocation fails or the CRC does not
  match), the output chunk is all zero, so its data pointer is null, and no payload block
  allocated by the call is left unfreed.
\<close>

theorem png_read_chunk_failure_zeroed:
  assumes "png_read_chunk malloc_ok (Some file) chunk = (False, chunk', file', live)"
  shows "chunk' = zero_chunk \<and> c_data chunk' = None \<and> live = 0"
  using assms
  by (auto simp: png_read_chunk_def png_read_chunk_data_def png_read_chunk_crc_def
        png_read_chunk_fail_def Let_def zero_chunk_def
        split: option.splits if_splits prod.splits)

text \<open>
  The theorem at a chunk of one payload octet whose stored CRC is wrong: the payload has been
  allocated and read when the mismatch is found.
\<close>

theorem png_read_chunk_failure_zeroed_witness:
  "png_read_chunk (\<lambda>_. True)
      (Some [0x00, 0x00, 0x00, 0x01, 0x49, 0x44, 0x41, 0x54, 0x00, 0x00, 0x00, 0x00, 0x00])
      \<lparr>c_length = 7, c_type = 7, c_data = Some [7], c_crc = 7\<rparr> = (False, zero_chunk, [], 0)
   \<and> c_data zero_chunk = None"
proof -
  have h: "png_read_chunk (\<lambda>_. True)
      (Some [0x00, 0x00, 0x00, 0x01, 0x49, 0x44, 0x41, 0x54, 0x00, 0x00, 0x00, 0x00, 0x00])
      \<lparr>c_length = 7, c_type = 7, c_data = Some [7], c_crc = 7\<rparr> = (False, zero_chunk, [], 0)"
    by (simp add: chunk_eval const_eval)
  from png_read_chunk_failure_zeroed [OF h] h show ?thesis by simp
qed

section \<open>Validation of IHDR\<close>

lemma read_uint32_be_defined:
  "4 \<le> length buf \<Longrightarrow> \<exists>v. read_uint32_be buf = Some v"
  by (cases buf rule: read_uint32_be.cases) auto

lemma png_parse_ihdr_13:
  assumes "c_length chunk = 13" "c_data chunk = Some data" "length data = 13"
    "read_uint32_be data = Some w" "read_uint32_be (drop 4 data) = Some h"
  shows "png_parse_ihdr chunk ihdr =
     Some (png_parse_ihdr_checks
             \<lparr>width = w, height = h, bit_depth = data ! 8, color_type = data ! 9,
              compression_method = data ! 10, filter_method = data ! 11,
              interlace_method = data ! 12\<rparr>,
           \<lparr>width = w, height = h, bit_depth = data ! 8, color_type = data ! 9,
              compression_method = data ! 10, filter_method = data ! 11,
              interlace_method = data ! 12\<rparr>)"
  using assms by (simp add: png_parse_ihdr_def rd_def Let_def)

lemma png_parse_ihdr_checks_iff:
  "png_parse_ihdr_checks ih \<longleftrightarrow>
     width ih \<noteq> 0 \<and> height ih \<noteq> 0 \<and> compression_method ih = 0 \<and> filter_method ih = 0 \<and>
     (interlace_method ih = 0 \<or> interlace_method ih = 1) \<and>
     legal_pair (color_type ih) (bit_depth ih)"
proof -
  consider "color_type ih = 0" | "color_type ih = 2" | "color_type ih = 3"
    | "color_type ih = 4" | "color_type ih = 6"
    | "color_type ih \<noteq> 0" "color_type ih \<noteq> 2" "color_type ih \<noteq> 3"
      "color_type ih \<noteq> 4" "color_type ih \<noteq> 6"
    by blast
  then show ?thesis
    by cases (simp_all add: png_parse_ihdr_checks_def legal_pair_def const_eval)
qed

text \<open>
  Claim C6, amended. For a chunk as the chunk reader delivers it, \<^verbatim>\<open>png_parse_ihdr\<close> returns 1
  if and only if the payload is exactly 13 octets, width and height are not zero (any 32-bit
  value, the top bit is not looked at), compression method and filter method are 0, the
  interlace method is 0 or 1, and colour type and bit depth form a legal pair.
\<close>

theorem png_parse_ihdr_accepts_iff:
  assumes "chunk_wf chunk"
  shows "(\<exists>ih. png_parse_ihdr chunk ihdr = Some (True, ih)) \<longleftrightarrow>
     (\<exists>data w h. c_data chunk = Some data \<and> length data = 13 \<and>
        read_uint32_be data = Some w \<and> read_uint32_be (drop 4 data) = Some h \<and>
        w \<noteq> 0 \<and> h \<noteq> 0 \<and> data ! 10 = 0 \<and> data ! 11 = 0 \<and>
        (data ! 12 = 0 \<or> data ! 12 = 1) \<and> legal_pair (data ! 9) (data ! 8))"
proof (cases "c_length chunk = 13")
  case False
  then have "png_parse_ihdr chunk ihdr = Some (False, ihdr)"
    by (simp add: png_parse_ihdr_def)
  moreover have "unat (c_length chunk) \<noteq> 13"
    using False by (simp add: word_unat_eq_iff)
  then have "\<And>data. c_data chunk = Some data \<Longrightarrow> length data \<noteq> 13"
    using assms by (simp add: chunk_wf_def)
  ultimately show ?thesis by auto
next
  case True
  then obtain data where data: "c_data chunk = Some data" "length data = 13"
    using assms by (auto simp: chunk_wf_def split: option.splits)
  obtain w where w: "read_uint32_be data = Some w"
    using read_uint32_be_defined [of data] data by auto
  obtain h where h: "read_uint32_be (drop 4 data) = Some h"
    using read_uint32_be_defined [of "drop 4 data"] data by auto
  show ?thesis
    using data w h
    by (auto simp: png_parse_ihdr_13 [OF True data w h] png_parse_ihdr_checks_iff)
qed

text \<open>The theorem at the IHDR chunk of \<open>s1_png\<close>: well formed, and accepted.\<close>

theorem png_parse_ihdr_accepts_iff_witness:
  "chunk_wf \<lparr>c_length = 13, c_type = PNG_CHUNK_IHDR,
      c_data = Some [0x00, 0x00, 0x00, 0x01, 0x00, 0x00, 0x00, 0x01, 0x08, 0x02, 0x00, 0x00, 0x00],
      c_crc = 0x907753DE\<rparr> \<and>
   (\<exists>ih. png_parse_ihdr \<lparr>c_length = 13, c_type = PNG_CHUNK_IHDR,
      c_data = Some [0x00, 0x00, 0x00, 0x01, 0x00, 0x00, 0x00, 0x01, 0x08, 0x02, 0x00, 0x00, 0x00],
      c_crc = 0x907753DE\<rparr> zero_ihdr = Some (True, ih))"
proof -
  have wf: "chunk_wf \<lparr>c_length = 13, c_type = PNG_CHUNK_IHDR,
      c_data = Some [0x00, 0x00, 0x00, 0x01, 0x00, 0x00, 0x00, 0x01, 0x08, 0x02, 0x00, 0x00, 0x00],
      c_crc = 0x907753DE\<rparr>"
    by (simp add: chunk_wf_def)
  show ?thesis
    using wf png_parse_ihdr_accepts_iff [OF wf, of zero_ihdr]
    by (simp add: legal_pair_def)
qed

text \<open>
  Claim C6 as stated fails: a width of \<open>0x80000000\<close>, whose top bit is set, is accepted.
\<close>

theorem png_parse_ihdr_top_bit_counterexample:
  "png_parse_ihdr
     \<lparr>c_length = 13, c_type = PNG_CHUNK_IHDR,
      c_data = Some [0x80, 0x00, 0x00, 0x00, 0x00, 0x00, 0x00, 0x01, 0x08, 0x02, 0x00, 0x00, 0x00],
      c_crc = 0\<rparr> zero_ihdr =
   Some (True, \<lparr>width = 0x80000000, height = 1, bit_depth = 8, color_type = 2,
                compression_method = 0, filter_method = 0, interlace_method = 0\<rparr>)
   \<and> bit (0x80000000 :: uint32_t) 31"
  by (simp add: switch_eval const_eval)

section \<open>Streams of chunks\<close>

text \<open>The chunk reader reads back what \<open>chunk_bytes\<close> writes.\<close>

lemma be32_word:
  "push_bit 24 (ucast (ucast (drop_bit 24 w) :: uint8_t)) OR
   push_bit 16 (ucast (ucast (drop_bit 16 w) :: uint8_t)) OR
   push_bit 8 (ucast (ucast (drop_bit 8 w) :: uint8_t)) OR ucast (ucast w :: uint8_t) = (w :: uint32_t)"
proof (rule bit_word_eqI)
  fix n assume n: "n < LENGTH(32)"
  consider "n < 8" | "8 \<le> n" "n < 16" | "16 \<le> n" "n < 24" | "24 \<le> n" "n < 32"
    using n by fastforce
  then show "bit (push_bit 24 (ucast (ucast (drop_bit 24 w) :: uint8_t)) OR
   push_bit 16 (ucast (ucast (drop_bit 16 w) :: uint8_t)) OR
   push_bit 8 (ucast (ucast (drop_bit 8 w) :: uint8_t)) OR ucast (ucast w :: uint8_t) :: uint32_t) n = bit w n"
    by cases (auto simp: bit_simps)
qed

lemma length_be32 [simp]: "length (be32 w) = 4"
  by (simp add: be32_def)

lemma read_uint32_be_be32 [simp]: "read_uint32_be (be32 w @ xs) = Some w"
  by (simp add: be32_def be32_word)

lemma read_uint32_be_be32_only [simp]: "read_uint32_be (be32 w) = Some w"
  using read_uint32_be_be32 [of w "[]"] by simp

lemma fread_be32 [simp]: "fread 4 (be32 w @ xs) = (be32 w, xs)"
  by (simp add: fread_def)

lemma fread_payload [simp]: "fread (length xs) (xs @ ys) = (xs, ys)"
  by (simp add: fread_def)

lemma png_crc32_loop_append:
  "png_crc32_loop c (xs @ ys) = png_crc32_loop (png_crc32_loop c xs) ys"
  by (induction xs arbitrary: c) simp_all

lemma png_crc32_chain: "png_crc32 (png_crc32 c xs) ys = png_crc32 c (xs @ ys)"
  by (simp add: png_crc32_def png_crc32_loop_append xor.assoc)

lemma unat_length_payload:
  "n < 2 ^ 32 \<Longrightarrow> unat (of_nat n :: uint32_t) = n"
  by (simp add: unat_of_nat)

lemma cap_less: "unat MAX_CHUNK_LENGTH < 2 ^ 32"
  by (simp add: MAX_CHUNK_LENGTH_def)

lemma png_read_chunk_delivers:
  assumes "deliverable malloc_ok payload"
  shows "png_read_chunk malloc_ok (Some (chunk_bytes ty payload @ rest)) c =
           (True, delivered ty payload, rest, if payload = [] then 0 else 1)"
proof -
  have len: "length payload \<le> unat MAX_CHUNK_LENGTH"
    and mem: "payload \<noteq> [] \<Longrightarrow> malloc_ok (length payload)"
    using assms by (auto simp: deliverable_def)
  have lt: "length payload < 2 ^ 32" using len cap_less by linarith
  have un: "unat (of_nat (length payload) :: uint32_t) = length payload"
    using lt by (rule unat_length_payload)
  have cap: "\<not> (of_nat (length payload) :: uint32_t) > MAX_CHUNK_LENGTH"
    using len un by (simp add: word_less_nat_alt)
  have pos: "(of_nat (length payload) :: uint32_t) > 0 \<longleftrightarrow> payload \<noteq> []"
    using un by (simp add: word_less_nat_alt)
  show ?thesis
  proof (cases "payload = []")
    case True
    then show ?thesis
      using cap
      by (simp add: png_read_chunk_def png_read_chunk_data_def png_read_chunk_crc_def
            chunk_bytes_def delivered_def zero_chunk_def Let_def)
  next
    case False
    then show ?thesis
      using cap pos un mem
      by (simp add: png_read_chunk_def png_read_chunk_data_def png_read_chunk_crc_def
            chunk_bytes_def delivered_def zero_chunk_def Let_def png_crc32_chain)
  qed
qed

lemma png_read_chunk_not_delivered:
  assumes "length payload < 2 ^ 32" and "\<not> deliverable malloc_ok payload"
  shows "fst (png_read_chunk malloc_ok (Some (chunk_bytes ty payload @ rest)) c) = False"
proof -
  have un: "unat (of_nat (length payload) :: uint32_t) = length payload"
    using assms(1) by (rule unat_length_payload)
  show ?thesis
  proof (cases "length payload \<le> unat MAX_CHUNK_LENGTH")
    case False
    then have "(of_nat (length payload) :: uint32_t) > MAX_CHUNK_LENGTH"
      using un by (simp add: word_less_nat_alt)
    then show ?thesis
      by (simp add: png_read_chunk_def png_read_chunk_fail_def chunk_bytes_def Let_def)
  next
    case True
    then have ne: "payload \<noteq> []" and nm: "\<not> malloc_ok (length payload)"
      using assms(2) by (auto simp: deliverable_def)
    have cap: "\<not> (of_nat (length payload) :: uint32_t) > MAX_CHUNK_LENGTH"
      using True un by (simp add: word_less_nat_alt)
    have pos: "(of_nat (length payload) :: uint32_t) > 0"
      using un ne by (simp add: word_less_nat_alt)
    show ?thesis
      using cap pos un nm
      by (simp add: png_read_chunk_def png_read_chunk_data_def png_read_chunk_fail_def
            chunk_bytes_def zero_chunk_def Let_def)
  qed
qed

text \<open>
  \<^verbatim>\<open>png_read_chunk\<close> clears \<^verbatim>\<open>*chunk\<close> first, so the loop does not depend on what the local
  variable holds.
\<close>

lemma png_read_chunk_ignores_chunk:
  "png_read_chunk malloc_ok (Some fl) c = png_read_chunk malloc_ok (Some fl) c'"
  by (simp add: png_read_chunk_def Let_def)

lemma png_read_file_loop_ignores_chunk:
  "png_read_file_loop v malloc_ok st fl c = png_read_file_loop v malloc_ok st fl c'"
  by (subst (1 2) png_read_file_loop.simps)
     (simp add: png_read_chunk_ignores_chunk [of malloc_ok fl c c'])

text \<open>
  On a file that starts with the octets of a list of chunks, the chunk loop does what
  \<open>run_chunks\<close> does on the list, and goes on with the rest of the file when the list is
  exhausted.
\<close>

lemma png_read_file_loop_stream:
  assumes "\<forall>(t, p) \<in> set cs. length p < 2 ^ 32"
  shows "png_read_file_loop v malloc_ok st (stream_bytes cs @ rest) c =
     (case run_chunks v malloc_ok st cs of
        Inl r \<Rightarrow> r
      | Inr st' \<Rightarrow> png_read_file_loop v malloc_ok st' rest c')"
  using assms
proof (induction cs arbitrary: st c)
  case Nil
  show ?case by (simp add: png_read_file_loop_ignores_chunk [of _ _ _ _ c c'])
next
  case (Cons a cs)
  obtain ty payload where a: "a = (ty, payload)" by (cases a)
  have lt: "length payload < 2 ^ 32" and rest: "\<forall>(t, p) \<in> set cs. length p < 2 ^ 32"
    using Cons.prems a by auto
  show ?case
  proof (cases "has_iend st")
    case True
    then show ?thesis using a by (simp add: png_read_file_loop.simps)
  next
    case False
    show ?thesis
    proof (cases "deliverable malloc_ok payload")
      case d: False
      obtain ok ch fl lv where r:
        "png_read_chunk malloc_ok (Some (chunk_bytes ty payload @ stream_bytes cs @ rest)) c = (ok, ch, fl, lv)"
        by (metis prod_cases4)
      have "\<not> ok" using png_read_chunk_not_delivered [OF lt d, of ty "stream_bytes cs @ rest" c] r by simp
      then show ?thesis
        using a False d r by (simp add: png_read_file_loop.simps [of v malloc_ok st])
    next
      case d: True
      note rc = png_read_chunk_delivers [OF d, of ty "stream_bytes cs @ rest" c]
      show ?thesis
        using a False d rc Cons.IH [OF rest]
        by (simp add: png_read_file_loop.simps [of v malloc_ok st] split: option.splits)
    qed
  qed
qed

lemma png_validate_signature_ok:
  "png_validate_signature (PNG_SIGNATURE @ fl) = (True, fl)"
  by (simp add: png_validate_signature_def fread_def PNG_SIGNATURE_def PNG_SIGNATURE_SIZE_def)

lemma png_read_file_stream:
  assumes "\<forall>(t, p) \<in> set cs. length p < 2 ^ 32"
  shows "png_read_file v malloc_ok zlib (Some (PNG_SIGNATURE @ stream_bytes cs @ rest)) image0 =
     (case (case run_chunks v malloc_ok
                   \<lparr>cur_image = zero_image, has_ihdr = False, has_idat = False, has_iend = False\<rparr> cs of
              Inl r \<Rightarrow> r
            | Inr st' \<Rightarrow> png_read_file_loop v malloc_ok st' rest zero_chunk) of
        None \<Rightarrow> Undefined
      | Some (ok, st) \<Rightarrow>
          if \<not> ok then Returns (False, png_free_image (cur_image st))
          else if \<not> has_ihdr st \<or> \<not> has_idat st \<or> \<not> has_iend st then
            Returns (False, png_free_image (cur_image st))
          else png_read_file_finish v malloc_ok zlib (cur_image st))"
  by (simp add: png_read_file_def png_validate_signature_ok
        png_read_file_loop_stream [OF assms, of _ _ _ _ _ zero_chunk])

text \<open>What one pass through the switch does to the three flags.\<close>

lemma c_type_delivered [simp]: "c_type (delivered ty payload) = ty"
  by (simp add: delivered_def)

lemma switch_unknown:
  "\<not> known_type (c_type ch) \<Longrightarrow> png_read_file_switch v m st ch = Some (True, st)"
  by (simp add: png_read_file_switch_def known_type_def)





section \<open>Unknown chunks\<close>

lemma png_read_file_loop_skip:
  assumes "\<not> known_type ty" and "deliverable malloc_ok payload"
  shows "png_read_file_loop v malloc_ok st (chunk_bytes ty payload @ rest) c =
         png_read_file_loop v malloc_ok st rest c'"
proof -
  have "length payload \<le> unat MAX_CHUNK_LENGTH" using assms(2) by (simp add: deliverable_def)
  then have lt: "\<forall>(t, p) \<in> set [(ty, payload)]. length p < 2 ^ 32"
    using cap_less by auto
  have sw: "png_read_file_switch v malloc_ok st (delivered ty payload) = Some (True, st)"
    using assms(1) by (simp add: switch_unknown)
  show ?thesis
  proof (cases "has_iend st")
    case True
    then show ?thesis by (simp add: png_read_file_loop.simps)
  next
    case False
    then show ?thesis
      using png_read_file_loop_stream [OF lt, of v malloc_ok st rest c c'] assms(2) sw by simp
  qed
qed

text \<open>
  Claim C3, amended. Take a chunk whose type is not one of IHDR, PLTE, tRNS, IDAT, IEND and
  which the chunk reader delivers (its payload is not longer than \<^verbatim>\<open>MAX_CHUNK_LENGTH\<close>, the
  block for it is granted, its CRC is right), whatever the case of the first letter of its
  type. \<^verbatim>\<open>png_read_chunk\<close> returns 1 for it, the switch leaves the decode state as it is, and
  \<^verbatim>\<open>png_read_file\<close> gives for a file with the chunk, after any number of whole chunks, the
  result it gives for the file without the chunk: the chunk is skipped, and the decode never
  fails because the type of a chunk is unknown.
\<close>

theorem unknown_chunk_skipped:
  assumes "\<not> known_type ty" and "deliverable malloc_ok payload"
    and "\<forall>(t, p) \<in> set cs. length p < 2 ^ 32"
  shows "png_read_chunk malloc_ok (Some (chunk_bytes ty payload @ rest)) chunk =
           (True, delivered ty payload, rest, if payload = [] then 0 else 1) \<and>
         png_read_file_switch v malloc_ok st (delivered ty payload) = Some (True, st) \<and>
         png_read_file v malloc_ok zlib
             (Some (PNG_SIGNATURE @ stream_bytes cs @ chunk_bytes ty payload @ rest)) image0 =
           png_read_file v malloc_ok zlib (Some (PNG_SIGNATURE @ stream_bytes cs @ rest)) image0"
proof (intro conjI)
  show "png_read_chunk malloc_ok (Some (chunk_bytes ty payload @ rest)) chunk =
           (True, delivered ty payload, rest, if payload = [] then 0 else 1)"
    using assms(2) by (rule png_read_chunk_delivers)
  show "png_read_file_switch v malloc_ok st (delivered ty payload) = Some (True, st)"
    using assms(1) by (simp add: switch_unknown)
  have "\<And>st'. png_read_file_loop v malloc_ok st' (chunk_bytes ty payload @ rest) zero_chunk =
          png_read_file_loop v malloc_ok st' rest zero_chunk"
    using assms(1,2) by (rule png_read_file_loop_skip)
  then show "png_read_file v malloc_ok zlib
             (Some (PNG_SIGNATURE @ stream_bytes cs @ chunk_bytes ty payload @ rest)) image0 =
           png_read_file v malloc_ok zlib (Some (PNG_SIGNATURE @ stream_bytes cs @ rest)) image0"
    by (cases "run_chunks v malloc_ok
                 \<lparr>cur_image = zero_image, has_ihdr = False, has_idat = False, has_iend = False\<rparr> cs")
       (simp_all add: png_read_file_stream [OF assms(3)])
qed

text \<open>
  The theorem at the file \<open>critical_png\<close>, which is \<open>s1_png\<close> with an empty chunk of type
  \<^verbatim>\<open>ABCD\<close> after the IHDR chunk: both files give the same result.
\<close>

theorem unknown_chunk_skipped_witness:
  "\<not> known_type 0x41424344 \<and> first_letter_uppercase 0x41424344 \<and>
   deliverable (\<lambda>_. True) [] \<and> length s1_ihdr < 2 ^ 32 \<and>
   critical_png =
     PNG_SIGNATURE @ stream_bytes [(PNG_CHUNK_IHDR, s1_ihdr)] @ chunk_bytes 0x41424344 [] @
     stream_bytes [(PNG_CHUNK_IDAT, s1_idat), (PNG_CHUNK_IEND, [])] \<and>
   s1_png =
     PNG_SIGNATURE @ stream_bytes [(PNG_CHUNK_IHDR, s1_ihdr)] @
     stream_bytes [(PNG_CHUNK_IDAT, s1_idat), (PNG_CHUNK_IEND, [])] \<and>
   png_read_file Png_decoder_c (\<lambda>_. True) test_zlib (Some critical_png) zero_image =
     png_read_file Png_decoder_c (\<lambda>_. True) test_zlib (Some s1_png) zero_image"
proof -
  have h1: "\<not> known_type 0x41424344"
    by (simp add: known_type_def const_eval)
  have h2: "deliverable (\<lambda>_. True) []"
    by (simp add: deliverable_def)
  have h3: "\<forall>(t, p) \<in> set [(PNG_CHUNK_IHDR, s1_ihdr)]. length p < 2 ^ 32"
    by (simp add: s1_ihdr_def)
  have u: "first_letter_uppercase 0x41424344"
    by (simp add: first_letter_uppercase_def bit_iff_odd_drop_bit)
  have e1: "critical_png =
     PNG_SIGNATURE @ stream_bytes [(PNG_CHUNK_IHDR, s1_ihdr)] @ chunk_bytes 0x41424344 [] @
     stream_bytes [(PNG_CHUNK_IDAT, s1_idat), (PNG_CHUNK_IEND, [])]"
    by (simp add: critical_png_def stream_eval s1_ihdr_def s1_idat_def chunk_eval const_eval)
  have e2: "s1_png =
     PNG_SIGNATURE @ stream_bytes [(PNG_CHUNK_IHDR, s1_ihdr)] @
     stream_bytes [(PNG_CHUNK_IDAT, s1_idat), (PNG_CHUNK_IEND, [])]"
    by (simp add: s1_png_def stream_eval s1_ihdr_def s1_idat_def chunk_eval const_eval)
  have "png_read_file Png_decoder_c (\<lambda>_. True) test_zlib (Some critical_png) zero_image =
     png_read_file Png_decoder_c (\<lambda>_. True) test_zlib (Some s1_png) zero_image"
    using unknown_chunk_skipped [OF h1 h2 h3,
        of "stream_bytes [(PNG_CHUNK_IDAT, s1_idat), (PNG_CHUNK_IEND, [])]" zero_chunk
          Png_decoder_c
          "\<lparr>cur_image = zero_image, has_ihdr = False, has_idat = False, has_iend = False\<rparr>"
          test_zlib zero_image]
    by (simp only: e1 [symmetric] e2 [symmetric])
  moreover have "length s1_ihdr < 2 ^ 32"
    by (simp add: s1_ihdr_def)
  ultimately show ?thesis using h1 h2 u e1 e2 by blast
qed

text \<open>
  Claim C3 as stated fails: the second chunk of \<open>critical_png\<close> has the unknown type
  \<^verbatim>\<open>ABCD\<close> with an uppercase first letter. \<^verbatim>\<open>png_read_file\<close> of \<^verbatim>\<open>png_decoder.c\<close> returns 1 for
  the file, and the chunk loop of \<^verbatim>\<open>part_002\<close> goes through the whole file and ends with all
  three flags set.
\<close>

theorem critical_chunk_counterexample:
  "png_read_chunk (\<lambda>_. True) (Some (drop 33 critical_png)) zero_chunk =
     (True, \<lparr>c_length = 0, c_type = 0x41424344, c_data = None, c_crc = 0xDB1720A5\<rparr>,
      drop 45 critical_png, 0) \<and>
   first_letter_uppercase 0x41424344 \<and> \<not> known_type 0x41424344 \<and>
   png_read_file Png_decoder_c (\<lambda>_. True) test_zlib (Some critical_png) zero_image =
     Returns (True, image_1x1 2 8 [0x00, 0x00, 0x00, 0x00]) \<and>
   png_read_file_loop Part_002 (\<lambda>_. True)
      \<lparr>cur_image = zero_image, has_ihdr = False, has_idat = False, has_iend = False\<rparr>
      (drop 8 critical_png) zero_chunk =
     Some (True, \<lparr>cur_image = image_1x1 PNG_COLOR_TYPE_RGB 8 s1_idat,
                   has_ihdr = True, has_idat = True, has_iend = True\<rparr>)"
  by (simp add: read_file_eval critical_png_def image_1x1_def known_type_def
        first_letter_uppercase_def bit_iff_odd_drop_bit)

section \<open>Chunk ordering\<close>










section \<open>Validation of tRNS\<close>

lemma chunk_payload_wf:
  "chunk_wf chunk \<Longrightarrow> \<exists>d. chunk_payload chunk = Some d \<and> length d = unat (c_length chunk)"
  by (auto simp: chunk_wf_def chunk_payload_def split: option.splits)

text \<open>
  Claim C7, amended. For a chunk as the chunk reader delivers it and an allocation that is
  served: \<^verbatim>\<open>png_parse_trns\<close> of \<^verbatim>\<open>part_002\<close> returns 1 exactly when the colour type is GRAY
  and the length is 2, or RGB and the length is 6, or PALETTE and the length is between 1 and
  256 (\<^verbatim>\<open>palette_size\<close> is not a parameter of the function and is not compared); so it returns
  0 for GRAY_ALPHA and RGBA. \<^verbatim>\<open>png_parse_trns\<close> of \<^verbatim>\<open>png_decoder.c\<close> returns 1 for every
  length. In both files \<^verbatim>\<open>png_read_file\<close> rejects a tRNS chunk when the colour type is
  GRAY_ALPHA or RGBA.
\<close>

theorem png_parse_trns_size_rules:
  assumes "chunk_wf chunk" and "malloc_ok (unat (c_length chunk))"
  shows "((\<exists>tr n. png_parse_trns_part2 malloc_ok chunk ctype tr0 n0 = Some (True, tr, n)) \<longleftrightarrow>
            (ctype = PNG_COLOR_TYPE_GRAY \<and> c_length chunk = 2 \<or>
             ctype = PNG_COLOR_TYPE_RGB \<and> c_length chunk = 6 \<or>
             ctype = PNG_COLOR_TYPE_PALETTE \<and> c_length chunk \<noteq> 0 \<and> c_length chunk \<le> 256)) \<and>
         (\<exists>tr n. png_parse_trns malloc_ok chunk tr0 n0 = Some (True, tr, n)) \<and>
         (color_type (header (cur_image st)) = PNG_COLOR_TYPE_GRAY_ALPHA \<or>
          color_type (header (cur_image st)) = PNG_COLOR_TYPE_RGBA \<longrightarrow>
            case_tRNS v malloc_ok st chunk = Some (False, st))"
proof -
  obtain d where d: "chunk_payload chunk = Some d"
    using chunk_payload_wf [OF assms(1)] by blast
  have part2: "(\<exists>tr n. png_parse_trns_part2 malloc_ok chunk ctype tr0 n0 = Some (True, tr, n)) \<longleftrightarrow>
            (ctype = PNG_COLOR_TYPE_GRAY \<and> c_length chunk = 2 \<or>
             ctype = PNG_COLOR_TYPE_RGB \<and> c_length chunk = 6 \<or>
             ctype = PNG_COLOR_TYPE_PALETTE \<and> c_length chunk \<noteq> 0 \<and> c_length chunk \<le> 256)"
    using d assms(2) by (auto simp: png_parse_trns_part2_def const_eval not_less)
  have c: "\<exists>tr n. png_parse_trns malloc_ok chunk tr0 n0 = Some (True, tr, n)"
    using d assms(2) by (simp add: png_parse_trns_def)
  have alpha: "color_type (header (cur_image st)) = PNG_COLOR_TYPE_GRAY_ALPHA \<or>
          color_type (header (cur_image st)) = PNG_COLOR_TYPE_RGBA \<longrightarrow>
            case_tRNS v malloc_ok st chunk = Some (False, st)"
    by (auto simp: case_tRNS_def)
  from part2 c alpha show ?thesis by blast
qed

text \<open>
  The theorem at the tRNS chunk of \<open>s4_png\<close>: accepted for a GRAY image, rejected by
  \<^verbatim>\<open>png_read_file\<close> for an RGBA image.
\<close>

theorem png_parse_trns_size_rules_witness:
  "chunk_wf \<lparr>c_length = 2, c_type = PNG_CHUNK_tRNS, c_data = Some [0x00, 0x80], c_crc = 0x9B2B4E18\<rparr> \<and>
   png_parse_trns_part2 (\<lambda>_. True)
     \<lparr>c_length = 2, c_type = PNG_CHUNK_tRNS, c_data = Some [0x00, 0x80], c_crc = 0x9B2B4E18\<rparr>
     PNG_COLOR_TYPE_GRAY None 0 = Some (True, Some [0x00, 0x80], 2) \<and>
   case_tRNS Part_002 (\<lambda>_. True)
     \<lparr>cur_image = image_1x1 6 8 [], has_ihdr = True, has_idat = False, has_iend = False\<rparr>
     \<lparr>c_length = 2, c_type = PNG_CHUNK_tRNS, c_data = Some [0x00, 0x80], c_crc = 0x9B2B4E18\<rparr> =
   Some (False, \<lparr>cur_image = image_1x1 6 8 [], has_ihdr = True, has_idat = False, has_iend = False\<rparr>)"
proof -
  have wf: "chunk_wf \<lparr>c_length = 2, c_type = PNG_CHUNK_tRNS, c_data = Some [0x00, 0x80], c_crc = 0x9B2B4E18\<rparr>"
    by (simp add: chunk_wf_def)
  have m: "(\<lambda>_. True) (unat (c_length \<lparr>c_length = 2, c_type = PNG_CHUNK_tRNS, c_data = Some [0x00, 0x80], c_crc = 0x9B2B4E18\<rparr>))"
    by simp
  show ?thesis
    using wf png_parse_trns_size_rules [OF wf m, of PNG_COLOR_TYPE_GRAY None 0
        "\<lparr>cur_image = image_1x1 6 8 [], has_ihdr = True, has_idat = False, has_iend = False\<rparr>" Part_002]
    by (simp add: switch_eval const_eval image_1x1_def)
qed

text \<open>
  Claim C7 as stated fails: in \<^verbatim>\<open>part_002\<close> a tRNS chunk of three octets is accepted for a
  PALETTE image whose palette has two entries, and in \<^verbatim>\<open>png_decoder.c\<close> a tRNS chunk of one
  octet is accepted for a GRAY image.
\<close>

theorem trns_size_counterexample:
  "case_tRNS Part_002 (\<lambda>_. True)
     \<lparr>cur_image = (image_1x1 3 8 [])
        \<lparr>palette := Some [\<lparr>red = 0, green = 0, blue = 0\<rparr>, \<lparr>red = 255, green = 255, blue = 255\<rparr>],
         palette_size := 2\<rparr>,
      has_ihdr = True, has_idat = False, has_iend = False\<rparr>
     \<lparr>c_length = 3, c_type = PNG_CHUNK_tRNS, c_data = Some [0x01, 0x02, 0x03], c_crc = 0\<rparr> =
   Some (True,
     \<lparr>cur_image = (image_1x1 3 8 [])
        \<lparr>palette := Some [\<lparr>red = 0, green = 0, blue = 0\<rparr>, \<lparr>red = 255, green = 255, blue = 255\<rparr>],
         palette_size := 2, transparency := Some [0x01, 0x02, 0x03], transparency_size := 3\<rparr>,
      has_ihdr = True, has_idat = False, has_iend = False\<rparr>) \<and>
   case_tRNS Png_decoder_c (\<lambda>_. True)
     \<lparr>cur_image = image_1x1 0 8 [], has_ihdr = True, has_idat = False, has_iend = False\<rparr>
     \<lparr>c_length = 1, c_type = PNG_CHUNK_tRNS, c_data = Some [0x80], c_crc = 0\<rparr> =
   Some (True,
     \<lparr>cur_image = (image_1x1 0 8 []) \<lparr>transparency := Some [0x80], transparency_size := 1\<rparr>,
      has_ihdr = True, has_idat = False, has_iend = False\<rparr>)"
  by (simp add: switch_eval const_eval image_1x1_def)

section \<open>A PALETTE image without a palette\<close>





lemma png_apply_filters_setup_dims:
  "png_apply_filters_setup m n hdr = Some r \<Longrightarrow> width hdr \<noteq> 0 \<and> height hdr \<noteq> 0"
  by (auto simp: png_apply_filters_setup_def split: if_splits)






section \<open>Palette indices outside the palette\<close>

lemma pixel_palette_not_False:
  assumes "color_type (header img) = PNG_COLOR_TYPE_PALETTE" and "palette img = Some pal"
  shows "png_convert_pixel img src_row x c \<noteq> Some (False, c')"
  using assms
  by (auto simp: png_convert_pixel_def png_convert_pixel_switch_def const_eval
        split: option.splits bool.splits prod.splits Option.bind_splits)

lemma cols_palette_not_False:
  assumes "color_type (header img) = PNG_COLOR_TYPE_PALETTE" and "palette img = Some pal"
  shows "png_convert_to_rgba_cols img src_row dst_row xs dst \<noteq> Some (False, d)"
proof (induction xs arbitrary: dst)
  case Nil
  show ?case by simp
next
  case (Cons x xs)
  show ?case
    using pixel_palette_not_False [OF assms] Cons.IH
    by (auto split: option.splits bool.splits prod.splits)
qed

lemma cols_part2_palette_not_False:
  assumes "color_type (header img) = PNG_COLOR_TYPE_PALETTE" and "palette img = Some pal"
  shows "png_convert_to_rgba_cols_part2 img src_row dst_row xs c dst \<noteq> Some (False, d)"
proof (induction xs arbitrary: c dst)
  case Nil
  show ?case by simp
next
  case (Cons x xs)
  show ?case
    using pixel_palette_not_False [OF assms] Cons.IH
    by (auto split: option.splits bool.splits prod.splits)
qed

lemma rows_palette_not_False:
  assumes "color_type (header img) = PNG_COLOR_TYPE_PALETTE" and "palette img = Some pal"
  shows "png_convert_to_rgba_rows img srb ys dst \<noteq> Some (False, d)"
proof (induction ys arbitrary: dst)
  case Nil
  show ?case by simp
next
  case (Cons y ys)
  show ?case
    using cols_palette_not_False [OF assms] Cons.IH
    by (auto split: option.splits bool.splits prod.splits)
qed

lemma rows_part2_palette_not_False:
  assumes "color_type (header img) = PNG_COLOR_TYPE_PALETTE" and "palette img = Some pal"
  shows "png_convert_to_rgba_rows_part2 img srb ys dst \<noteq> Some (False, d)"
proof (induction ys arbitrary: dst)
  case Nil
  show ?case by simp
next
  case (Cons y ys)
  show ?case
    using cols_part2_palette_not_False [OF assms] Cons.IH
    by (auto split: option.splits bool.splits prod.splits)
qed

text \<open>
  With an index that is not below \<^verbatim>\<open>palette_size\<close> the lookup assigns nothing, at every bit
  depth; the alpha step that follows changes at most \<^verbatim>\<open>a\<close>.
\<close>

lemma palette_lookup_out_of_range:
  "unat pal_size \<le> i \<Longrightarrow> palette_lookup pal pal_size i c = Some c"
  by (cases c) (simp add: palette_lookup_def)

lemma pixel_palette_colour_out_of_range:
  assumes "palette_index img src_row x = Some i" and "unat (palette_size img) \<le> i"
  shows "pixel_palette_colour img pal src_row x c = Some c"
  using assms
  by (auto simp: palette_index_def pixel_palette_colour_def palette_lookup_out_of_range
        split: if_splits)

lemma palette_alpha_keeps:
  "palette_alpha tr n i (r, g, b, a) = Some c' \<Longrightarrow> \<exists>a'. c' = (r, g, b, a')"
  by (auto simp: palette_alpha_def split: if_splits Option.bind_splits)

lemma pixel_palette_alpha_keeps:
  "pixel_palette_alpha img src_row x (r, g, b, a) = Some c' \<Longrightarrow> \<exists>a'. c' = (r, g, b, a')"
  by (auto simp: pixel_palette_alpha_def split: option.splits if_splits Option.bind_splits
        dest: palette_alpha_keeps)

lemma png_convert_pixel_trns_palette:
  "color_type (header img) = PNG_COLOR_TYPE_PALETTE \<Longrightarrow>
     png_convert_pixel_trns img src_row x c = Some c"
  by (simp add: png_convert_pixel_trns_def const_eval split: option.splits)

lemma pixel_out_of_range:
  assumes "color_type (header img) = PNG_COLOR_TYPE_PALETTE" and "palette img = Some pal"
    and "palette_index img src_row x = Some i" and "unat (palette_size img) \<le> i"
  shows "png_convert_pixel img src_row x c =
           map_option (Pair True) (pixel_palette_alpha img src_row x c)"
proof -
  have sw: "png_convert_pixel_switch img src_row x c =
              map_option (Pair True) (pixel_palette_alpha img src_row x c)"
    using assms(1,2) pixel_palette_colour_out_of_range [OF assms(3,4), of pal c]
    by (cases "pixel_palette_alpha img src_row x c")
       (simp_all add: png_convert_pixel_switch_def const_eval)
  show ?thesis
    using sw png_convert_pixel_trns_palette [OF assms(1)]
    by (cases "pixel_palette_alpha img src_row x c") (simp_all add: png_convert_pixel_def)
qed

text \<open>
  Claim C8, amended. In the conversion of a PALETTE image whose palette is present, a pixel
  whose index is not below \<^verbatim>\<open>palette_size\<close> never makes \<^verbatim>\<open>png_convert_to_rgba\<close> return 0: in
  both versions the only returns of 0 are a failed allocation and a raster that is too
  short. For such a pixel the lookup in the palette is skipped, at every bit depth, and the
  pixel keeps the values \<^verbatim>\<open>r, g, b\<close> it starts from; only its alpha can change, when the
  tRNS table has an entry for the index. So \<^verbatim>\<open>png_decoder.c\<close>, where every pixel starts from
  0, 0, 0, 255, writes the pixel as 0, 0, 0 with that alpha, and \<^verbatim>\<open>part_002\<close>, where a pixel
  starts from the values the previous pixel of the row has left, writes those values again.
\<close>

theorem palette_index_out_of_range_accepted:
  assumes "color_type (header img) = PNG_COLOR_TYPE_PALETTE" and "palette img = Some pal"
  shows "(png_convert_to_rgba malloc_ok img = Some (False, out, n) \<or>
          png_convert_to_rgba_part2 malloc_ok img = Some (False, out, n) \<longrightarrow>
            \<not> malloc_ok (unat (width (header img) * height (header img) * 4)) \<or>
            (\<exists>bpp srb. png_convert_to_rgba_switch (header img) = Some (bpp, srb) \<and>
               image_data_size img < height (header img) * srb)) \<and>
         (palette_index img src_row x = Some i \<and> unat (palette_size img) \<le> i \<longrightarrow>
            pixel_palette_colour img pal src_row x (r, g, b, a) = Some (r, g, b, a) \<and>
            png_convert_pixel img src_row x (r, g, b, a) =
              map_option (Pair True) (pixel_palette_alpha img src_row x (r, g, b, a)) \<and>
            (\<forall>c'. pixel_palette_alpha img src_row x (r, g, b, a) = Some c' \<longrightarrow>
                   (\<exists>a'. c' = (r, g, b, a'))) \<and>
            (\<forall>a'. pixel_palette_alpha img src_row x (0, 0, 0, 255) = Some (0, 0, 0, a') \<longrightarrow>
               png_convert_to_rgba_cols img src_row dst_row (x # xs) dst =
                 (case put_pixel dst dst_row x 0 0 0 a' of
                    None \<Rightarrow> None
                  | Some dst' \<Rightarrow> png_convert_to_rgba_cols img src_row dst_row xs dst')) \<and>
            (\<forall>a'. pixel_palette_alpha img src_row x (r, g, b, a) = Some (r, g, b, a') \<longrightarrow>
               png_convert_to_rgba_cols_part2 img src_row dst_row (x # xs) (r, g, b, a) dst =
                 (case put_pixel dst dst_row x b g r a' of
                    None \<Rightarrow> None
                  | Some dst' \<Rightarrow>
                      png_convert_to_rgba_cols_part2 img src_row dst_row xs (r, g, b, a') dst')) \<and>
            (transparency img = None \<longrightarrow>
               png_convert_pixel img src_row x (r, g, b, a) = Some (True, (r, g, b, a))))"
proof (intro conjI impI allI)
  assume f: "png_convert_to_rgba malloc_ok img = Some (False, out, n) \<or>
          png_convert_to_rgba_part2 malloc_ok img = Some (False, out, n)"
  obtain bpp srb where sw: "png_convert_to_rgba_switch (header img) = Some (bpp, srb)"
    using assms(1) by (auto simp: png_convert_to_rgba_switch_def Let_def const_eval)
  show "\<not> malloc_ok (unat (width (header img) * height (header img) * 4)) \<or>
            (\<exists>bpp srb. png_convert_to_rgba_switch (header img) = Some (bpp, srb) \<and>
               image_data_size img < height (header img) * srb)"
    using f sw rows_palette_not_False [OF assms] rows_part2_palette_not_False [OF assms]
    by (auto simp: png_convert_to_rgba_def png_convert_to_rgba_part2_def Let_def
          split: option.splits bool.splits prod.splits if_splits)
next
  assume i: "palette_index img src_row x = Some i \<and> unat (palette_size img) \<le> i"
  then show "pixel_palette_colour img pal src_row x (r, g, b, a) = Some (r, g, b, a)"
    by (simp add: pixel_palette_colour_out_of_range)
  show "png_convert_pixel img src_row x (r, g, b, a) =
              map_option (Pair True) (pixel_palette_alpha img src_row x (r, g, b, a))"
    using i assms by (simp add: pixel_out_of_range)
next
  fix c'
  assume "pixel_palette_alpha img src_row x (r, g, b, a) = Some c'"
  then show "\<exists>a'. c' = (r, g, b, a')"
    by (rule pixel_palette_alpha_keeps)
next
  fix a'
  assume i: "palette_index img src_row x = Some i \<and> unat (palette_size img) \<le> i"
    and al: "pixel_palette_alpha img src_row x (0, 0, 0, 255) = Some (0, 0, 0, a')"
  have "png_convert_pixel img src_row x (0, 0, 0, 255) = Some (True, (0, 0, 0, a'))"
    using i assms al by (simp add: pixel_out_of_range)
  then show "png_convert_to_rgba_cols img src_row dst_row (x # xs) dst =
                 (case put_pixel dst dst_row x 0 0 0 a' of
                    None \<Rightarrow> None
                  | Some dst' \<Rightarrow> png_convert_to_rgba_cols img src_row dst_row xs dst')"
    by simp
next
  fix a'
  assume i: "palette_index img src_row x = Some i \<and> unat (palette_size img) \<le> i"
    and al: "pixel_palette_alpha img src_row x (r, g, b, a) = Some (r, g, b, a')"
  have "png_convert_pixel img src_row x (r, g, b, a) = Some (True, (r, g, b, a'))"
    using i assms al by (simp add: pixel_out_of_range)
  then show "png_convert_to_rgba_cols_part2 img src_row dst_row (x # xs) (r, g, b, a) dst =
                 (case put_pixel dst dst_row x b g r a' of
                    None \<Rightarrow> None
                  | Some dst' \<Rightarrow>
                      png_convert_to_rgba_cols_part2 img src_row dst_row xs (r, g, b, a') dst')"
    by simp
next
  assume i: "palette_index img src_row x = Some i \<and> unat (palette_size img) \<le> i"
    and t: "transparency img = None"
  show "png_convert_pixel img src_row x (r, g, b, a) = Some (True, (r, g, b, a))"
    using i assms t by (simp add: pixel_out_of_range pixel_palette_alpha_def)
qed

text \<open>
  The theorem at \<open>two_pixel_image\<close>, whose second pixel has the index 5 with a palette of one
  entry: with an allocation that fails the conversion returns 0; otherwise it returns 1, and
  the second pixel comes out black in \<^verbatim>\<open>png_decoder.c\<close> and as a copy of the first pixel in
  \<^verbatim>\<open>part_002\<close>.
\<close>

theorem palette_index_out_of_range_accepted_witness:
  "color_type (header two_pixel_image) = PNG_COLOR_TYPE_PALETTE \<and>
   palette two_pixel_image = Some [\<lparr>red = 1, green = 2, blue = 3\<rparr>] \<and>
   png_convert_to_rgba (\<lambda>_. False) two_pixel_image = Some (False, None, 8) \<and>
   palette_index two_pixel_image 0 1 = Some 5 \<and> unat (palette_size two_pixel_image) \<le> 5 \<and>
   png_convert_pixel two_pixel_image 0 1 (1, 2, 3, 255) = Some (True, (1, 2, 3, 255)) \<and>
   png_convert_to_rgba (\<lambda>_. True) two_pixel_image =
     Some (True, Some [0x01, 0x02, 0x03, 0xFF, 0x00, 0x00, 0x00, 0xFF], 8) \<and>
   png_convert_to_rgba_part2 (\<lambda>_. True) two_pixel_image =
     Some (True, Some [0x03, 0x02, 0x01, 0xFF, 0x03, 0x02, 0x01, 0xFF], 8)"
proof -
  have h: "color_type (header two_pixel_image) = PNG_COLOR_TYPE_PALETTE"
    "palette two_pixel_image = Some [\<lparr>red = 1, green = 2, blue = 3\<rparr>]"
    by (simp_all add: two_pixel_image_def)
  have f: "png_convert_to_rgba (\<lambda>_. False) two_pixel_image = Some (False, None, 8)"
    by (simp add: png_convert_to_rgba_def two_pixel_image_def)
  have s: "palette_index two_pixel_image 0 1 = Some 5"
    "unat (palette_size two_pixel_image) \<le> 5"
    "transparency two_pixel_image = None"
    by (simp_all add: palette_index_def src_at_def rd_def two_pixel_image_def)
  have c: "png_convert_to_rgba (\<lambda>_. True) two_pixel_image =
     Some (True, Some [0x01, 0x02, 0x03, 0xFF, 0x00, 0x00, 0x00, 0xFF], 8)"
    by (simp add: convert_eval upt_rec two_pixel_image_def)
  have d: "png_convert_to_rgba_part2 (\<lambda>_. True) two_pixel_image =
     Some (True, Some [0x03, 0x02, 0x01, 0xFF, 0x03, 0x02, 0x01, 0xFF], 8)"
    by (simp add: convert_eval upt_rec two_pixel_image_def)
  have p: "png_convert_pixel two_pixel_image 0 1 (1, 2, 3, 255) = Some (True, (1, 2, 3, 255))"
    using h f s
      palette_index_out_of_range_accepted [OF h, of "\<lambda>_. False" None 8 0 1 5 1 2 3 255]
    by (simp add: pixel_palette_alpha_def)
  from h f s c d p show ?thesis by blast
qed

text \<open>
  Claim C8 as stated fails: the conversion of \<open>one_colour_image\<close>, whose pixel has the index
  5 with a palette of one entry, returns 1 in both versions and renders the pixel black.
\<close>

theorem palette_index_counterexample:
  "png_convert_to_rgba (\<lambda>_. True) one_colour_image = Some (True, Some [0x00, 0x00, 0x00, 0xFF], 4) \<and>
   png_convert_to_rgba_part2 (\<lambda>_. True) one_colour_image = Some (True, Some [0x00, 0x00, 0x00, 0xFF], 4) \<and>
   src_at one_colour_image 0 0 = Some 5 \<and> palette_size one_colour_image = 1"
  by (simp add: convert_eval upt_rec one_colour_image_def)

section \<open>Colour key of a GRAY image\<close>

text \<open>
  For a GRAY image of a bit depth other than 16 the alpha is 0 exactly when the octet
  \<^verbatim>\<open>src_row[x]\<close> equals \<^verbatim>\<open>transparency[0]\<close>.
\<close>

lemma trns_gray_first_octet:
  assumes "bit_depth (header img) \<noteq> 16" and "1 \<le> transparency_size img"
    and "src_at img src_row x = Some v" and "rd tr 0 = Some t0"
  shows "trns_gray img tr src_row x (r, g, b, a) = Some (r, g, b, if v = t0 then 0 else 255)"
  using assms by (simp add: trns_gray_def)

text \<open>
  Claim C5 does not hold of the code. For scenario S4 (gray sample \<open>0x80\<close>, tRNS gray
  \<open>0x0080\<close>) the decoder gives the alpha 255, not 0: for bit depths below 16 the sample is
  compared with \<^verbatim>\<open>transparency[0]\<close>, the high octet of the 16-bit tRNS value, which is 0 here.
  So the full decode of \<^verbatim>\<open>png_decoder.c\<close> gives 80 80 80 FF for the file \<open>s4_png\<close>, and
  \<^verbatim>\<open>png_convert_to_rgba\<close> of \<^verbatim>\<open>part_002\<close> gives the same for the image of S4.
\<close>

theorem s4_colour_key_ignored:
  "full_decode Png_decoder_c (\<lambda>_. True) test_zlib (Some s4_png) zero_image =
     Returns (Some [0x80, 0x80, 0x80, 0xFF]) \<and>
   png_convert_to_rgba_part2 (\<lambda>_. True)
     ((image_1x1 PNG_COLOR_TYPE_GRAY 8 [0x80])
        \<lparr>transparency := Some [0x00, 0x80], transparency_size := 2\<rparr>) =
     Some (True, Some [0x80, 0x80, 0x80, 0xFF], 4)"
proof -
  have a: "png_read_file Png_decoder_c (\<lambda>_. True) test_zlib (Some s4_png) zero_image =
     Returns (True, (image_1x1 PNG_COLOR_TYPE_GRAY 8 [0x80, 0x80])
                      \<lparr>transparency := Some [0x00, 0x80], transparency_size := 2\<rparr>)"
    by (simp add: read_file_eval s4_png_def image_1x1_def)
  have c: "png_convert_to_rgba (\<lambda>_. True) ((image_1x1 PNG_COLOR_TYPE_GRAY 8 [0x80, 0x80])
                   \<lparr>transparency := Some [0x00, 0x80], transparency_size := 2\<rparr>) =
     Some (True, Some [0x80, 0x80, 0x80, 0xFF], 4)"
    by (simp add: convert_eval upt_rec)
  have d: "png_convert_to_rgba_part2 (\<lambda>_. True) ((image_1x1 PNG_COLOR_TYPE_GRAY 8 [0x80])
                   \<lparr>transparency := Some [0x00, 0x80], transparency_size := 2\<rparr>) =
     Some (True, Some [0x80, 0x80, 0x80, 0xFF], 4)"
    by (simp add: convert_eval upt_rec)
  show ?thesis
    by (simp add: full_decode_def a c d)
qed

section \<open>Reverse filtering\<close>

text \<open>
  The loop over \<^verbatim>\<open>x\<close> reconstructs one scanline in place: every octet from the stored octet
  and the neighbours already reconstructed.
\<close>

lemma png_apply_filters_byte_predictor:
  "png_apply_filters_byte f bpp prev cur x =
     cur ! x + predictor f (if bpp \<le> x then cur ! (x - bpp) else 0) (prev ! x)
                 (if bpp \<le> x then prev ! (x - bpp) else 0)"
  by (simp add: png_apply_filters_byte_def predictor_def Let_def)

lemma png_apply_filters_line_length [simp]:
  "length (png_apply_filters_line f bpp prev cur xs) = length cur"
  by (induction xs arbitrary: cur) simp_all

lemma png_apply_filters_line_upt:
  assumes "0 < bpp" and "n \<le> length cur"
  shows "(\<forall>j<k. png_apply_filters_line f bpp prev cur [k..<n] ! j = cur ! j) \<and>
         (\<forall>j. k \<le> j \<and> j < n \<longrightarrow>
            png_apply_filters_line f bpp prev cur [k..<n] ! j =
              cur ! j + predictor f
                (if bpp \<le> j then png_apply_filters_line f bpp prev cur [k..<n] ! (j - bpp) else 0)
                (prev ! j) (if bpp \<le> j then prev ! (j - bpp) else 0))"
  using assms
proof (induction "n - k" arbitrary: k cur)
  case 0
  then show ?case by auto
next
  case (Suc m)
  then have kn: "k < n" by simp
  let ?cur1 = "cur[k := png_apply_filters_byte f bpp prev cur k]"
  let ?res = "png_apply_filters_line f bpp prev ?cur1 [Suc k..<n]"
  have unfold: "png_apply_filters_line f bpp prev cur [k..<n] = ?res"
    using kn by (simp add: upt_conv_Cons)
  have m: "m = n - Suc k" using Suc.hyps(2) by simp
  have len1: "n \<le> length ?cur1" using Suc.prems by simp
  note IH = Suc.hyps(1) [OF m \<open>0 < bpp\<close> len1]
  have before: "\<forall>j<Suc k. ?res ! j = ?cur1 ! j" using IH by blast
  have at_k: "?res ! k = png_apply_filters_byte f bpp prev cur k"
    using before kn Suc.prems by simp
  have lt_k: "\<And>j. j < k \<Longrightarrow> ?res ! j = cur ! j"
    using before by simp
  show ?case
  proof (intro conjI allI impI)
    fix j assume "j < k"
    then show "png_apply_filters_line f bpp prev cur [k..<n] ! j = cur ! j"
      using unfold lt_k by simp
  next
    fix j assume j: "k \<le> j \<and> j < n"
    show "png_apply_filters_line f bpp prev cur [k..<n] ! j =
              cur ! j + predictor f
                (if bpp \<le> j then png_apply_filters_line f bpp prev cur [k..<n] ! (j - bpp) else 0)
                (prev ! j) (if bpp \<le> j then prev ! (j - bpp) else 0)"
    proof (cases "j = k")
      case True
      have "bpp \<le> k \<Longrightarrow> ?res ! (k - bpp) = cur ! (k - bpp)"
        using lt_k [of "k - bpp"] \<open>0 < bpp\<close> by simp
      then show ?thesis
        using True unfold at_k by (simp add: png_apply_filters_byte_predictor)
    next
      case False
      then have "Suc k \<le> j \<and> j < n" using j by simp
      then have "?res ! j = ?cur1 ! j + predictor f
                (if bpp \<le> j then ?res ! (j - bpp) else 0)
                (prev ! j) (if bpp \<le> j then prev ! (j - bpp) else 0)"
        using IH by blast
      moreover have "?cur1 ! j = cur ! j" using False by simp
      ultimately show ?thesis using unfold by simp
    qed
  qed
qed

lemma png_apply_filters_line_correct:
  assumes "0 < bpp" and "j < length cur"
  shows "png_apply_filters_line f bpp prev cur [0..<length cur] ! j =
           cur ! j + predictor f
             (if bpp \<le> j then png_apply_filters_line f bpp prev cur [0..<length cur] ! (j - bpp) else 0)
             (prev ! j) (if bpp \<le> j then prev ! (j - bpp) else 0)"
  using png_apply_filters_line_upt [OF assms(1), of "length cur" cur 0 f prev] assms(2) by simp


text \<open>Reading back what \<open>wr\<close> has written.\<close>

lemma wr_length: "wr buf off xs = Some b' \<Longrightarrow> length b' = length buf"
  by (auto simp: wr_def split: if_splits)

lemma wr_nth:
  assumes "wr buf off xs = Some b'" and "i < length buf"
  shows "b' ! i = (if off \<le> i \<and> i < off + length xs then xs ! (i - off) else buf ! i)"
proof -
  have le: "off + length xs \<le> length buf"
    and b': "b' = take off buf @ xs @ drop (off + length xs) buf"
    using assms(1) by (auto simp: wr_def split: if_splits)
  show ?thesis
  proof (cases "i < off")
    case True
    then show ?thesis using le b' by (simp add: nth_append)
  next
    case False
    show ?thesis
    proof (cases "i < off + length xs")
      case True
      then have "i - off < length xs" using False by arith
      then show ?thesis using True False le b' by (simp add: nth_append)
    next
      case False
      then have "off + length xs + (i - off - length xs) = i"
        and "\<not> i - off < length xs" by simp_all
      then show ?thesis using False \<open>\<not> i < off\<close> le b' assms(2)
        by (simp add: nth_append)
    qed
  qed
qed

lemma row_index_less: "y < y0 \<Longrightarrow> x < stride \<Longrightarrow> y * stride + x < y0 * (stride :: nat)"
proof -
  assume a: "y < y0" "x < stride"
  then have "y * stride + x < Suc y * stride" by simp
  also have "\<dots> \<le> y0 * stride" using a(1) by (intro mult_le_mono1) simp
  finally show ?thesis .
qed

lemma reverse_filtered_agree:
  assumes "reverse_filtered bpp stride y0 buf b" and "\<forall>i < y0 * stride. b' ! i = b ! i"
  shows "reverse_filtered bpp stride y0 buf b'"
  unfolding reverse_filtered_def
proof (intro allI impI)
  fix y x assume y: "y < y0" and x: "x < stride"
  have i0: "y * stride + x < y0 * stride" using y x by (rule row_index_less)
  then have i1: "y * stride + x - bpp < y0 * stride" by simp
  have i2: "0 < y \<Longrightarrow> (y - 1) * stride + x < y0 * stride"
    using y x by (intro row_index_less) simp_all
  then have i3: "0 < y \<Longrightarrow> (y - 1) * stride + x - bpp < y0 * stride" by fastforce
  have eq: "b ! (y * stride + x) =
          buf ! (y * (stride + 1) + 1 + x) +
          predictor (buf ! (y * (stride + 1)))
            (if bpp \<le> x then b ! (y * stride + x - bpp) else 0)
            (if 0 < y then b ! ((y - 1) * stride + x) else 0)
            (if bpp \<le> x \<and> 0 < y then b ! ((y - 1) * stride + x - bpp) else 0)"
    using assms(1) y x by (simp add: reverse_filtered_def)
  show "b' ! (y * stride + x) =
          buf ! (y * (stride + 1) + 1 + x) +
          predictor (buf ! (y * (stride + 1)))
            (if bpp \<le> x then b' ! (y * stride + x - bpp) else 0)
            (if 0 < y then b' ! ((y - 1) * stride + x) else 0)
            (if bpp \<le> x \<and> 0 < y then b' ! ((y - 1) * stride + x - bpp) else 0)"
    using eq assms(2) i0 i1 i2 i3 by simp
qed

lemma reverse_filtered_Suc:
  "reverse_filtered bpp stride (Suc y0) buf b \<longleftrightarrow>
     reverse_filtered bpp stride y0 buf b \<and>
     (\<forall>x < stride.
        b ! (y0 * stride + x) =
          buf ! (y0 * (stride + 1) + 1 + x) +
          predictor (buf ! (y0 * (stride + 1)))
            (if bpp \<le> x then b ! (y0 * stride + x - bpp) else 0)
            (if 0 < y0 then b ! ((y0 - 1) * stride + x) else 0)
            (if bpp \<le> x \<and> 0 < y0 then b ! ((y0 - 1) * stride + x - bpp) else 0))"
  by (auto simp: reverse_filtered_def less_Suc_eq)


text \<open>
  The loop over the scanlines in \<^verbatim>\<open>png_decoder.c\<close>: as long as the buffer holds \<open>h\<close> scanlines
  with filter types 0 to 4, it ends normally and leaves the reverse-filtered raster at the
  start of the buffer. So \<^verbatim>\<open>png_apply_filters\<close> of \<^verbatim>\<open>png_decoder.c\<close> returns that raster moved
  down by \<^verbatim>\<open>header->height\<close> octets.
\<close>

lemma png_apply_filters_rows_correct:
  assumes "0 < bpp"
    and "h * (stride + 1) \<le> length buf"
    and "\<forall>y < h. buf ! (y * (stride + 1)) \<le> 4"
    and "y0 \<le> h"
    and "length b = length buf"
    and "\<forall>i. y0 * (stride + 1) \<le> i \<and> i < length buf \<longrightarrow> b ! i = buf ! i"
    and "reverse_filtered bpp stride y0 buf b"
    and "length prev = stride"
    and "\<forall>x < stride. prev ! x = (if 0 < y0 then b ! ((y0 - 1) * stride + x) else 0)"
  shows "\<exists>out. png_apply_filters_rows bpp stride [y0..<h] (y0 * (stride + 1)) (y0 * stride) b prev =
                 Some (True, out) \<and>
               length out = length buf \<and> reverse_filtered bpp stride h buf out"
  using assms(4-)
proof (induction "h - y0" arbitrary: y0 b prev)
  case 0
  then have "y0 = h" by simp
  then show ?case using "0.prems" by simp
next
  case (Suc m)
  note bpp = assms(1) and fits = assms(2) and ft = assms(3)
  have y0h: "y0 < h" using Suc.hyps(2) by simp
  let ?dp = "y0 * (stride + 1)" and ?op = "y0 * stride"
  let ?f = "buf ! ?dp"
  let ?cur = "take stride (drop (?dp + 1) b)"
  let ?line = "png_apply_filters_line ?f bpp prev ?cur [0..<stride]"
  have next_dp: "Suc y0 * (stride + 1) = ?dp + 1 + stride" by simp
  have next_op: "Suc y0 * stride = ?op + stride" by simp
  have "Suc y0 * (stride + 1) \<le> h * (stride + 1)"
    using y0h by (intro mult_le_mono1) simp
  then have row_fits: "?dp + 1 + stride \<le> length b"
    using fits Suc.prems(2) by simp
  then have dp_lt: "?dp < length buf" using Suc.prems(2) by simp
  have rd_f: "rd b ?dp = Some ?f"
    using dp_lt Suc.prems(2,3) by (simp add: rd_def)
  have f_ok: "\<not> 4 < ?f" using ft y0h by (simp add: not_less)
  have cur_len: "length ?cur = stride" using row_fits by simp
  have cur_nth: "\<And>x. x < stride \<Longrightarrow> ?cur ! x = buf ! (?dp + 1 + x)"
    using row_fits Suc.prems(2,3) by simp
  have line_len: "length ?line = stride" using cur_len by simp
  have "?op + stride \<le> ?dp + 1 + stride" by simp
  then have wr_fits: "?op + length ?line \<le> length b"
    using row_fits line_len by simp
  then obtain b' where b': "wr b ?op ?line = Some b'"
    by (simp add: wr_def)
  have len': "length b' = length buf" using wr_length [OF b'] Suc.prems(2) by simp
  have nth': "\<And>i. i < length buf \<Longrightarrow>
      b' ! i = (if ?op \<le> i \<and> i < ?op + length ?line then ?line ! (i - ?op) else b ! i)"
    using wr_nth [OF b'] Suc.prems(2) by simp
  have low: "\<And>i. i < ?op \<Longrightarrow> b' ! i = b ! i"
  proof -
    fix i assume i: "i < ?op"
    then have "i < length buf" using wr_fits Suc.prems(2) by simp
    then show "b' ! i = b ! i" using nth' i by simp
  qed
  have row: "\<And>x. x < stride \<Longrightarrow> b' ! (?op + x) = ?line ! x"
  proof -
    fix x assume x: "x < stride"
    then have lt: "?op + x < length buf" using wr_fits line_len Suc.prems(2) by simp
    have in_row: "?op \<le> ?op + x \<and> ?op + x < ?op + length ?line"
      unfolding line_len using x by simp
    have "b' ! (?op + x) = ?line ! (?op + x - ?op)"
      using nth' [OF lt] in_row by (simp only: if_True simp_thms)
    then show "b' ! (?op + x) = ?line ! x" by simp
  qed
  have unread': "\<forall>i. Suc y0 * (stride + 1) \<le> i \<and> i < length buf \<longrightarrow> b' ! i = buf ! i"
  proof (intro allI impI)
    fix i assume i: "Suc y0 * (stride + 1) \<le> i \<and> i < length buf"
    then have "?op + stride \<le> i" by simp
    then have "\<not> (i < ?op + length ?line)" using line_len by simp
    then have "b' ! i = b ! i" using nth' i by simp
    moreover have "?dp \<le> i" using i by simp
    ultimately show "b' ! i = buf ! i" using Suc.prems(3) i by simp
  qed
  have prev_b': "\<And>x. x < stride \<Longrightarrow> prev ! x = (if 0 < y0 then b' ! ((y0 - 1) * stride + x) else 0)"
  proof -
    fix x assume x: "x < stride"
    have "0 < y0 \<Longrightarrow> (y0 - 1) * stride + x < ?op"
      using x by (intro row_index_less) simp_all
    then show "prev ! x = (if 0 < y0 then b' ! ((y0 - 1) * stride + x) else 0)"
      using Suc.prems(6) x low by simp
  qed
  have row_eq: "\<forall>x < stride.
        b' ! (?op + x) =
          buf ! (?dp + 1 + x) +
          predictor (buf ! ?dp)
            (if bpp \<le> x then b' ! (?op + x - bpp) else 0)
            (if 0 < y0 then b' ! ((y0 - 1) * stride + x) else 0)
            (if bpp \<le> x \<and> 0 < y0 then b' ! ((y0 - 1) * stride + x - bpp) else 0)"
  proof (intro allI impI)
    fix x assume x: "x < stride"
    have line: "?line ! x = ?cur ! x + predictor ?f
             (if bpp \<le> x then ?line ! (x - bpp) else 0)
             (prev ! x) (if bpp \<le> x then prev ! (x - bpp) else 0)"
      using png_apply_filters_line_correct [OF bpp, of x ?cur ?f prev] x cur_len by simp
    have left: "bpp \<le> x \<Longrightarrow> ?line ! (x - bpp) = b' ! (?op + x - bpp)"
      using row [of "x - bpp"] x by simp
    have up: "prev ! x = (if 0 < y0 then b' ! ((y0 - 1) * stride + x) else 0)"
      using prev_b' x by simp
    have ul: "bpp \<le> x \<Longrightarrow> prev ! (x - bpp) = (if 0 < y0 then b' ! ((y0 - 1) * stride + x - bpp) else 0)"
      using prev_b' [of "x - bpp"] x by simp
    show "b' ! (?op + x) =
          buf ! (?dp + 1 + x) +
          predictor (buf ! ?dp)
            (if bpp \<le> x then b' ! (?op + x - bpp) else 0)
            (if 0 < y0 then b' ! ((y0 - 1) * stride + x) else 0)
            (if bpp \<le> x \<and> 0 < y0 then b' ! ((y0 - 1) * stride + x - bpp) else 0)"
      using row [OF x] line left up ul cur_nth [OF x] by (cases "bpp \<le> x") simp_all
  qed
  have done': "reverse_filtered bpp stride (Suc y0) buf b'"
    using reverse_filtered_agree [OF Suc.prems(4), of b'] low row_eq
    by (simp add: reverse_filtered_Suc)
  have prev': "\<forall>x < stride. ?line ! x = (if 0 < Suc y0 then b' ! ((Suc y0 - 1) * stride + x) else 0)"
    using row by simp
  have m: "m = h - Suc y0" using Suc.hyps(2) by simp
  have le: "Suc y0 \<le> h" using y0h by simp
  obtain out where out:
    "png_apply_filters_rows bpp stride [Suc y0..<h] (Suc y0 * (stride + 1)) (Suc y0 * stride) b' ?line =
       Some (True, out)"
    "length out = length buf" "reverse_filtered bpp stride h buf out"
    using Suc.hyps(1) [OF m le len' unread' done' line_len prev'] by blast
  have "png_apply_filters_rows bpp stride [y0..<h] ?dp ?op b prev =
        png_apply_filters_rows bpp stride [Suc y0..<h] (?dp + 1 + stride) (?op + stride) b' ?line"
    using y0h rd_f f_ok row_fits b' by (simp add: upt_conv_Cons Let_def)
  then show ?case using out next_dp next_op by (metis)
qed


lemma png_apply_filters_setup_bpp:
  assumes "png_apply_filters_setup malloc_ok sz hdr = Some (bpp, bpl)"
  shows "0 < bpp"
proof (rule ccontr)
  assume "\<not> 0 < bpp"
  then have "bpp = 0" by simp
  with assms show False
    by (auto simp: png_apply_filters_setup_def split: option.splits prod.splits if_splits)
qed

lemma rows_from_start:
  assumes "0 < bpp"
    and "h * (stride + 1) \<le> length buf"
    and "\<forall>y < h. buf ! (y * (stride + 1)) \<le> 4"
  shows "\<exists>out. png_apply_filters_rows bpp stride [0..<h] 0 0 buf (replicate stride 0) =
                 Some (True, out) \<and>
               length out = length buf \<and> reverse_filtered bpp stride h buf out"
  using png_apply_filters_rows_correct [OF assms, of 0 buf "replicate stride 0"]
  by (simp add: reverse_filtered_def)

lemma png_apply_filters_shifted:
  assumes "png_apply_filters_setup malloc_ok sz hdr = Some (bpp, bpl)"
    and "unat (height hdr) * (unat bpl + 1) \<le> length buf"
    and "\<forall>y < unat (height hdr). buf ! (y * (unat bpl + 1)) \<le> 4"
  shows "\<exists>out out'.
           png_apply_filters_rows bpp (unat bpl) [0..<unat (height hdr)] 0 0 buf
             (replicate (unat bpl) 0) = Some (True, out) \<and>
           reverse_filtered bpp (unat bpl) (unat (height hdr)) buf out \<and>
           png_apply_filters malloc_ok (Some buf) sz hdr = Some (True, Some out') \<and>
           length out' = length buf \<and>
           (\<forall>i < unat (bpl * height hdr). out' ! i = out ! (unat (height hdr) + i))"
proof -
  have bpp: "0 < bpp" using assms(1) by (rule png_apply_filters_setup_bpp)
  let ?h = "unat (height hdr)" and ?n = "unat (bpl * height hdr)"
  obtain out where out:
    "png_apply_filters_rows bpp (unat bpl) [0..<?h] 0 0 buf (replicate (unat bpl) 0) = Some (True, out)"
    "length out = length buf" "reverse_filtered bpp (unat bpl) ?h buf out"
    using rows_from_start [OF bpp assms(2,3)] by auto
  have "?n \<le> unat bpl * ?h"
    by (simp add: unat_mult_lem unat_word_ariths)
  then have fits: "?h + ?n \<le> length out"
    using assms(2) out(2) by (simp add: algebra_simps)
  let ?moved = "take ?n (drop ?h out)"
  have moved_len: "length ?moved = ?n" using fits by simp
  obtain out' where out': "wr out 0 ?moved = Some out'"
    using fits by (simp add: wr_def)
  have mm: "png_apply_filters_memmove out (height hdr) bpl = Some out'"
    using fits out' by (simp add: png_apply_filters_memmove_def)
  have len': "length out' = length buf" using wr_length [OF out'] out(2) by simp
  have nth': "\<forall>i < ?n. out' ! i = out ! (?h + i)"
  proof (intro allI impI)
    fix i assume i: "i < ?n"
    then have il: "i < length out" and ih: "i < length out - ?h" using fits by simp_all
    have "out' ! i = ?moved ! i" using wr_nth [OF out' il] i ih by simp
    also have "\<dots> = out ! (?h + i)" using i ih by simp
    finally show "out' ! i = out ! (?h + i)" .
  qed
  show ?thesis
    using assms(1) out mm len' nth'
    by (simp add: png_apply_filters_def)
qed

text \<open>
  In \<^verbatim>\<open>part_002\<close> the first scanline with a filter type of 0 to 4 already takes the loop
  past the end of \<^verbatim>\<open>current_line\<close> and of \<^verbatim>\<open>prev_line\<close>: \<^verbatim>\<open>png_apply_filters\<close> has no defined
  result on any buffer that \<^verbatim>\<open>png_decoder.c\<close> would reverse, and it never returns 1.
\<close>

lemma png_apply_filters_rows_part2_overrun:
  assumes "dp + 1 + bpl \<le> length buf" and "buf ! dp \<le> 4"
  shows "png_apply_filters_rows_part2 bpp bpl (y # ys) dp op buf prev = None"
proof -
  have "rd buf dp = Some (buf ! dp)" using assms(1) by (simp add: rd_def)
  moreover have "\<not> 4 < buf ! dp" using assms(2) by (simp add: not_less)
  moreover have "length (png_apply_filters_line (buf ! dp) bpp prev
      (take bpl (drop (dp + 1) buf)) [0..<bpl]) = bpl"
    using assms(1) by simp
  ultimately show ?thesis
    using assms(1) by (simp add: rdn_def Let_def)
qed

lemma png_apply_filters_part2_overrun:
  assumes "png_apply_filters_setup malloc_ok sz hdr = Some (bpp, bpl)"
    and "unat bpl + 1 \<le> length buf" and "buf ! 0 \<le> 4"
  shows "png_apply_filters_part2 malloc_ok (Some buf) sz hdr = None"
proof -
  have "height hdr \<noteq> 0" using png_apply_filters_setup_dims [OF assms(1)] by simp
  then have "[0..<unat (height hdr)] = 0 # [1..<unat (height hdr)]"
    by (simp add: upt_conv_Cons unat_gt_0)
  then show ?thesis
    using assms(1) png_apply_filters_rows_part2_overrun [of 0 "unat bpl" buf]  assms(2,3)
    by (simp add: png_apply_filters_part2_def)
qed

lemma png_apply_filters_rows_part2_never_1:
  "png_apply_filters_rows_part2 bpp bpl (y # ys) dp op buf prev \<noteq> Some (True, b)"
  by (auto simp: rdn_def Let_def split: option.splits if_splits)

lemma png_apply_filters_part2_never_1:
  "png_apply_filters_part2 malloc_ok image_data0 sz hdr \<noteq> Some (True, b)"
proof (cases "png_apply_filters_setup malloc_ok sz hdr")
  case None
  then show ?thesis
    by (simp add: png_apply_filters_part2_def split: option.splits)
next
  case (Some r)
  then have "height hdr \<noteq> 0" using png_apply_filters_setup_dims by blast
  then have "[0..<unat (height hdr)] = 0 # [1..<unat (height hdr)]"
    by (simp add: upt_conv_Cons unat_gt_0)
  then show ?thesis
    using Some png_apply_filters_rows_part2_never_1
    by (auto simp: png_apply_filters_part2_def simp del: png_apply_filters_rows_part2.simps
          split: option.splits prod.splits)
qed

text \<open>
  Claim C2 does not hold of \<^verbatim>\<open>png_decoder.c\<close>. For one scanline of a 1x1 RGB image of bit depth
  8 with filter type 0 and the stored octets FF 00 00, the loop over the scanlines leaves
  FF 00 00 at the start of the buffer, and the final \<^verbatim>\<open>memmove\<close>, which shifts the buffer
  by \<^verbatim>\<open>header->height\<close> octets, replaces it by 00 00 00.
\<close>

theorem png_apply_filters_memmove_corrupts:
  "png_apply_filters (\<lambda>_. True) (Some [0x00, 0xFF, 0x00, 0x00]) 4
     (header (image_1x1 PNG_COLOR_TYPE_RGB 8 [])) = Some (True, Some [0x00, 0x00, 0x00, 0x00]) \<and>
   png_apply_filters_rows 3 3 [0] 0 0 [0x00, 0xFF, 0x00, 0x00] [0x00, 0x00, 0x00] =
     Some (True, [0xFF, 0x00, 0x00, 0x00])"
  by (simp add: filters_eval image_1x1_def const_eval)

section \<open>Scenario S1\<close>

text \<open>
  Claim C1, amended. For the file \<open>s1_png\<close> the chunk loop of \<^verbatim>\<open>png_read_file\<close> goes through
  the whole file in both versions and leaves the header of a 1x1 RGB image of bit depth 8
  with the IDAT payload. From the image with that header and a raster of one pixel \<open>r, g, b\<close>
  (FF 00 00 in S1) \<^verbatim>\<open>png_convert_to_rgba\<close> returns 1 with four octets of alpha 255: in the order
  R, G, B, A in \<^verbatim>\<open>png_decoder.c\<close> (FF 00 00 FF for S1), in the order B, G, R, A in \<^verbatim>\<open>part_002\<close>
  (00 00 FF FF for S1). What \<^verbatim>\<open>png_apply_filters\<close> leaves in the raster between the two steps
  is not part of the statement.
\<close>

theorem s1_pixel_byte_order:
  "png_read_file_loop v (\<lambda>_. True)
      \<lparr>cur_image = zero_image, has_ihdr = False, has_idat = False, has_iend = False\<rparr>
      (drop 8 s1_png) zero_chunk =
     Some (True, \<lparr>cur_image = image_1x1 PNG_COLOR_TYPE_RGB 8 s1_idat,
                   has_ihdr = True, has_idat = True, has_iend = True\<rparr>) \<and>
   png_convert_to_rgba (\<lambda>_. True) (image_1x1 PNG_COLOR_TYPE_RGB 8 [r, g, b]) =
     Some (True, Some [r, g, b, 0xFF], 4) \<and>
   png_convert_to_rgba_part2 (\<lambda>_. True) (image_1x1 PNG_COLOR_TYPE_RGB 8 [r, g, b]) =
     Some (True, Some [b, g, r, 0xFF], 4)"
proof (intro conjI)
  show "png_read_file_loop v (\<lambda>_. True)
      \<lparr>cur_image = zero_image, has_ihdr = False, has_idat = False, has_iend = False\<rparr>
      (drop 8 s1_png) zero_chunk =
     Some (True, \<lparr>cur_image = image_1x1 PNG_COLOR_TYPE_RGB 8 s1_idat,
                   has_ihdr = True, has_idat = True, has_iend = True\<rparr>)"
    by (rule png_read_file_loop_s1)
  show "png_convert_to_rgba (\<lambda>_. True) (image_1x1 PNG_COLOR_TYPE_RGB 8 [r, g, b]) =
     Some (True, Some [r, g, b, 0xFF], 4)"
    by (simp add: convert_eval upt_rec)
  show "png_convert_to_rgba_part2 (\<lambda>_. True) (image_1x1 PNG_COLOR_TYPE_RGB 8 [r, g, b]) =
     Some (True, Some [b, g, r, 0xFF], 4)"
    by (simp add: convert_eval upt_rec)
qed

text \<open>
  Claim C1 as stated fails. The full decode of \<open>s1_png\<close> gives 00 00 00 FF in
  \<^verbatim>\<open>png_decoder.c\<close> and has no defined result in \<^verbatim>\<open>part_002\<close>, whose \<^verbatim>\<open>png_apply_filters\<close> copies
  past the end of its line buffers; and from the raster FF 00 00 the conversion of
  \<^verbatim>\<open>part_002\<close> gives 00 00 FF FF. In no case is the output FF 00 00 FF.
\<close>

theorem s1_byte_order_counterexample:
  "full_decode Png_decoder_c (\<lambda>_. True) test_zlib (Some s1_png) zero_image =
     Returns (Some [0x00, 0x00, 0x00, 0xFF]) \<and>
   full_decode Part_002 (\<lambda>_. True) test_zlib (Some s1_png) zero_image = Undefined \<and>
   png_convert_to_rgba_part2 (\<lambda>_. True) (image_1x1 PNG_COLOR_TYPE_RGB 8 [0xFF, 0x00, 0x00]) =
     Some (True, Some [0x00, 0x00, 0xFF, 0xFF], 4) \<and>
   [0x00, 0x00, 0x00, 0xFF] \<noteq> [0xFF, 0x00, 0x00, 0xFF :: uint8_t] \<and>
   [0x00, 0x00, 0xFF, 0xFF] \<noteq> [0xFF, 0x00, 0x00, 0xFF :: uint8_t]"
proof -
  have c: "png_convert_to_rgba (\<lambda>_. True) (image_1x1 2 8 [0x00, 0x00, 0x00, 0x00]) =
     Some (True, Some [0x00, 0x00, 0x00, 0xFF], 4)"
    by (simp add: convert_eval upt_rec)
  have d: "png_convert_to_rgba_part2 (\<lambda>_. True) (image_1x1 PNG_COLOR_TYPE_RGB 8 [0xFF, 0x00, 0x00]) =
     Some (True, Some [0x00, 0x00, 0xFF, 0xFF], 4)"
    by (simp add: convert_eval upt_rec)
  show ?thesis
    by (simp add: full_decode_def read_s1_png_decoder_c read_s1_part2 c d)
qed

end
